theory Spec2Isabelle
  imports Complex_Main
begin

section \<open>Data model (models/Account.ts, models/Transaction.ts)\<close>

text \<open>
  The enums of the frontend models become datatypes and the interfaces become records.
  Identifiers are integers. Record fields are prefixed where two interfaces share a
  field name. A balance or a transaction amount is the rational that the number
  denotes, and the sums of the analytics are exact sums. The numbers of the conversion
  preview, where every step rounds, are binary64 values (next section).
\<close>

datatype Currency = USD | EGP | GBP | EUR

datatype AccountType = CHECKING | SAVINGS | CREDIT | DEBIT | INVESTMENT | CASH

datatype TransactionType = INCOME | EXPENSE | TRANSFER

datatype RecurrenceFrequency = DAILY | WEEKLY | MONTHLY | QUARTERLY | YEARLY

record Account =
  acc_id :: int
  acc_name :: string
  acc_type :: AccountType
  initial_balance :: rat
  acc_currency :: Currency
  acc_owner_id :: int

section \<open>JavaScript numbers in the conversion preview\<close>

text \<open>
  The conversion preview divides, multiplies and rounds, and its results depend on the
  rounding of every step. There a \<open>number\<close> is modelled as what it is: an IEEE 754
  binary64 value, finite (given by the rational it denotes), infinite or NaN. The sign
  of zero is not modelled: \<open>+0\<close> and \<open>-0\<close> are both \<open>Finite 0\<close>.
\<close>

datatype double = Finite rat | PosInf | NegInf | NaN

text \<open>Powers of two with an integer exponent.\<close>

definition pow2 :: "int \<Rightarrow> rat" where
  "pow2 n = (if 0 \<le> n then 2 ^ nat n else 1 / 2 ^ nat (- n))"

text \<open>The number of binary digits of a positive integer.\<close>

function bits :: "int \<Rightarrow> int" where
  "bits n = (if n \<le> 0 then 0 else 1 + bits (n div 2))"
  by auto

termination
  by (relation "measure nat") auto

declare bits.simps [simp del]

text \<open>
  The binary exponent of a positive rational \<open>a\<close>: the \<open>e\<close> with
  \<open>2 ^ e \<le> a < 2 ^ (e + 1)\<close>.
\<close>

definition exponent :: "rat \<Rightarrow> int" where
  "exponent a =
    (if 1 \<le> a then bits \<lfloor>a\<rfloor> - 1 else - bits (\<lceil>1 / a\<rceil> - 1))"

text \<open>Rounding to the nearest integer, a tie going to the even one.\<close>

definition round_half_even :: "rat \<Rightarrow> int" where
  "round_half_even r =
    (let f = \<lfloor>r\<rfloor>; d = r - of_int f
     in if d < 1 / 2 then f else if 1 / 2 < d then f + 1 else if even f then f else f + 1)"

text \<open>
  Rounding a rational to 53 significant binary digits, to nearest and ties to even:
  the spacing of the representable values around \<open>x\<close> is \<open>2 ^ (e - 52)\<close> for the
  exponent \<open>e\<close> of \<open>x\<close>, and \<open>2 ^ -1074\<close> below \<open>2 ^ -1022\<close> (the subnormal range).
\<close>

definition fl :: "rat \<Rightarrow> rat" where
  "fl x =
    (if x = 0 then 0
     else (let e = max (exponent \<bar>x\<bar>) (- 1022);
               ulp = pow2 (e - 52)
           in of_int (round_half_even (x / ulp)) * ulp))"

text \<open>
  The binary64 value of an exact result, and of a decimal literal or parsed decimal
  string: the rounded value, or an infinity when the rounded value reaches \<open>2 ^ 1024\<close>.
\<close>

definition dbl :: "rat \<Rightarrow> double" where
  "dbl x =
    (let y = fl x
     in if pow2 1024 \<le> \<bar>y\<bar> then (if 0 < x then PosInf else NegInf) else Finite y)"

text \<open>The infinity of the sign of \<open>s\<close>, and NaN for \<open>s = 0\<close>.\<close>

definition inf_of :: "rat \<Rightarrow> double" where
  "inf_of s = (if 0 < s then PosInf else if s < 0 then NegInf else NaN)"

text \<open>The operator \<open>*\<close> on numbers.\<close>

fun fmul :: "double \<Rightarrow> double \<Rightarrow> double" where
  "fmul NaN _ = NaN"
| "fmul _ NaN = NaN"
| "fmul (Finite x) (Finite y) = dbl (x * y)"
| "fmul (Finite x) PosInf = inf_of x"
| "fmul (Finite x) NegInf = inf_of (- x)"
| "fmul PosInf (Finite y) = inf_of y"
| "fmul NegInf (Finite y) = inf_of (- y)"
| "fmul PosInf PosInf = PosInf"
| "fmul PosInf NegInf = NegInf"
| "fmul NegInf PosInf = NegInf"
| "fmul NegInf NegInf = PosInf"

text \<open>
  The operator \<open>/\<close> on numbers. A zero divisor is taken as \<open>+0\<close>; the preview never
  divides by zero (its divisors are a rate that is not falsy, an amount that the test
  \<open>amount <= 0\<close> did not reject, 100 and 10000).
\<close>

fun fdiv :: "double \<Rightarrow> double \<Rightarrow> double" where
  "fdiv NaN _ = NaN"
| "fdiv _ NaN = NaN"
| "fdiv (Finite x) (Finite y) = (if y = 0 then inf_of x else dbl (x / y))"
| "fdiv (Finite x) PosInf = Finite 0"
| "fdiv (Finite x) NegInf = Finite 0"
| "fdiv PosInf (Finite y) = (if 0 \<le> y then PosInf else NegInf)"
| "fdiv NegInf (Finite y) = (if 0 \<le> y then NegInf else PosInf)"
| "fdiv PosInf PosInf = NaN"
| "fdiv PosInf NegInf = NaN"
| "fdiv NegInf PosInf = NaN"
| "fdiv NegInf NegInf = NaN"

text \<open>The comparisons \<open><=\<close> and \<open>>\<close>: false whenever an operand is NaN.\<close>

fun dle :: "double \<Rightarrow> double \<Rightarrow> bool" where
  "dle NaN _ = False"
| "dle _ NaN = False"
| "dle (Finite x) (Finite y) = (x \<le> y)"
| "dle NegInf _ = True"
| "dle _ PosInf = True"
| "dle PosInf _ = False"
| "dle _ NegInf = False"

definition dgt :: "double \<Rightarrow> double \<Rightarrow> bool" where
  "dgt a b = (dle b a \<and> \<not> dle a b)"

text \<open>A number is falsy when it is zero or NaN.\<close>

definition truthy :: "double \<Rightarrow> bool" where
  "truthy d = (d \<noteq> NaN \<and> d \<noteq> Finite 0)"

text \<open>
  The expression \<open>x || d\<close> on an optional number (\<open>undefined\<close> is \<open>None\<close>), and the test
  \<open>x && x > 0\<close>.
\<close>

definition or_default :: "double option \<Rightarrow> double \<Rightarrow> double" where
  "or_default x d = (case x of None \<Rightarrow> d | Some v \<Rightarrow> if truthy v then v else d)"

definition truthy_and_positive :: "double option \<Rightarrow> bool" where
  "truthy_and_positive x =
    (case x of None \<Rightarrow> False | Some v \<Rightarrow> truthy v \<and> dgt v (Finite 0))"

text \<open>
  \<open>Math.round\<close>: the nearest integer, a tie going towards plus infinity; NaN and the
  infinities are returned as they are. The result of a finite binary64 value is a
  binary64 value again, so no rounding to 53 digits follows.
\<close>

fun Math_round :: "double \<Rightarrow> double" where
  "Math_round (Finite x) = Finite (of_int \<lfloor>x + 1 / 2\<rfloor>)"
| "Math_round d = d"

section \<open>Conversion preview of the transfer page (pages/TransferPage.tsx)\<close>

record TransferCreateRequest =
  from_account_id :: int
  to_account_id :: int
  amount :: double
  converted_amount :: "double option"
  description :: string

record ConversionPreview =
  originalAmount :: double
  convertedAmount :: double
  exchangeRate :: double
  sameCurrency :: bool
  isCustomRate :: bool

text \<open>\<open>accounts.find(a => a.id === i)\<close>: the first account with that id, or undefined.\<close>

definition find_account :: "Account list \<Rightarrow> int \<Rightarrow> Account option" where
  "find_account accounts i = find (\<lambda>a. acc_id a = i) accounts"

text \<open>
  \<open>getConversionPreview\<close>, with the component state it reads (the account list, the
  exchange-rate table fetched from \<open>/transactions/exchange-rates\<close>, the custom-rate
  checkbox and the form data) as arguments. \<open>null\<close> is \<open>None\<close>. Every arithmetic
  operator of the source is the binary64 operation, in the order of the source.
\<close>

definition getConversionPreview ::
  "Account list \<Rightarrow> (Currency \<rightharpoonup> double) \<Rightarrow> bool \<Rightarrow> TransferCreateRequest \<Rightarrow>
   ConversionPreview option"
where
  "getConversionPreview accounts exchangeRates useCustomRate transferData =
    (case find_account accounts (from_account_id transferData) of
       None \<Rightarrow> None
     | Some fromAccount \<Rightarrow>
    (case find_account accounts (to_account_id transferData) of
       None \<Rightarrow> None
     | Some toAccount \<Rightarrow>
       if dle (amount transferData) (Finite 0) then None
       else if acc_currency fromAccount = acc_currency toAccount then
         Some \<lparr> originalAmount = amount transferData,
                convertedAmount = amount transferData,
                exchangeRate = Finite 1,
                sameCurrency = True,
                isCustomRate = False \<rparr>
       else if useCustomRate \<and> truthy_and_positive (converted_amount transferData) then
         (let exchangeRate' = fdiv (the (converted_amount transferData)) (amount transferData)
          in Some \<lparr> originalAmount = amount transferData,
                    convertedAmount = the (converted_amount transferData),
                    exchangeRate =
                      fdiv (Math_round (fmul exchangeRate' (Finite 10000))) (Finite 10000),
                    sameCurrency = False,
                    isCustomRate = True \<rparr>)
       else
         (let fromRate = or_default (exchangeRates (acc_currency fromAccount)) (Finite 1);
              toRate = or_default (exchangeRates (acc_currency toAccount)) (Finite 1);
              usdAmount = fdiv (amount transferData) fromRate;
              convertedAmount' = fmul usdAmount toRate;
              exchangeRate' = fdiv convertedAmount' (amount transferData)
          in Some \<lparr> originalAmount = amount transferData,
                    convertedAmount =
                      fdiv (Math_round (fmul convertedAmount' (Finite 100))) (Finite 100),
                    exchangeRate =
                      fdiv (Math_round (fmul exchangeRate' (Finite 10000))) (Finite 10000),
                    sameCurrency = False,
                    isCustomRate = False \<rparr>)))"

text \<open>
  The rest of the page state that the submit handler touches: the preview switch, the
  messages shown through \<open>alert\<close> (oldest first) and the requests handed to
  \<open>transferMutation.mutate\<close>, each of which becomes one \<open>POST /transactions/transfers\<close>.
\<close>

record TransferPage =
  transferData :: TransferCreateRequest
  useCustomRate :: bool
  showPreview :: bool
  alerts :: "string list"
  mutations :: "TransferCreateRequest list"

definition handleSubmit :: "TransferPage \<Rightarrow> TransferPage" where
  "handleSubmit s =
    (if from_account_id (transferData s) = to_account_id (transferData s)
     then s\<lparr>alerts := alerts s @ [''Please select different source and destination accounts'']\<rparr>
     else s\<lparr>showPreview := True\<rparr>)"

text \<open>
  The "Confirm Transfer" button of the confirmation dialog is the only caller of
  \<open>confirmTransfer\<close>, which sends the form data as they are.
\<close>

definition confirmTransfer :: "TransferPage \<Rightarrow> TransferPage" where
  "confirmTransfer s = s\<lparr>mutations := mutations s @ [transferData s]\<rparr>"

section \<open>Dates\<close>

text \<open>
  A calendar date of the proleptic Gregorian calendar: months are 1 to 12, days start
  at 1. \<open>getMonth\<close> and \<open>getFullYear\<close> are the accessors of the JavaScript \<open>Date\<close>
  (months counted from 0); the parse of the date string and the time zone are outside
  the model.
\<close>

record civil_date =
  d_year :: nat
  d_month :: nat
  d_day :: nat

definition getMonth :: "civil_date \<Rightarrow> nat" where
  "getMonth d = d_month d - 1"

definition getFullYear :: "civil_date \<Rightarrow> nat" where
  "getFullYear d = d_year d"

definition is_leap :: "nat \<Rightarrow> bool" where
  "is_leap y = ((y mod 4 = 0 \<and> y mod 100 \<noteq> 0) \<or> y mod 400 = 0)"

definition days_in_month :: "nat \<Rightarrow> nat \<Rightarrow> nat" where
  "days_in_month y m =
    (if m = 2 then (if is_leap y then 29 else 28)
     else if m = 4 \<or> m = 6 \<or> m = 9 \<or> m = 11 then 30 else 31)"

definition valid_date :: "civil_date \<Rightarrow> bool" where
  "valid_date d = (1 \<le> d_month d \<and> d_month d \<le> 12 \<and>
                   1 \<le> d_day d \<and> d_day d \<le> days_in_month (d_year d) (d_month d))"

definition date_less :: "civil_date \<Rightarrow> civil_date \<Rightarrow> bool" where
  "date_less a b = (d_year a < d_year b \<or>
     (d_year a = d_year b \<and> (d_month a < d_month b \<or>
       (d_month a = d_month b \<and> d_day a < d_day b))))"

text \<open>
  Two counts to measure date arithmetic against. The first is the number of days from
  0000-01-01 to a date, counting that day as 1: the days of the years before, plus the
  days of the months before in the same year, plus the day of the month.
\<close>

fun days_before_year :: "nat \<Rightarrow> int" where
  "days_before_year 0 = 0"
| "days_before_year (Suc y) = days_before_year y + (if is_leap y then 366 else 365)"

definition days_before_month :: "nat \<Rightarrow> nat \<Rightarrow> nat" where
  "days_before_month y m = sum_list (map (days_in_month y) [1..<m])"

definition day_number :: "civil_date \<Rightarrow> int" where
  "day_number d = days_before_year (d_year d) + int (days_before_month (d_year d) (d_month d))
                    + int (d_day d)"

text \<open>The second is the number of months from January of year 0 to the month of a date.\<close>

definition month_index :: "civil_date \<Rightarrow> nat" where
  "month_index d = d_year d * 12 + (d_month d - 1)"

section \<open>Analytics (pages/Dashboard.tsx, pages/AnalyticsPage.tsx, the services)\<close>

record Transaction =
  tx_id :: int
  tx_amount :: rat
  tx_type :: TransactionType
  tx_description :: "string option"
  tx_date :: civil_date
  tx_currency :: Currency
  tx_account_id :: int
  tx_category_id :: "int option"
  tx_owner_id :: int
  recurring_transaction_id :: "int option"

record TotalBalance =
  total_amount :: rat
  total_currency :: Currency

text \<open>
  The JavaScript expression \<open>x || d\<close> on an optional number: \<open>undefined\<close> and \<open>0\<close>
  are falsy and give \<open>d\<close>.
\<close>

definition js_or :: "rat option \<Rightarrow> rat \<Rightarrow> rat" where
  "js_or x d = (case x of None \<Rightarrow> d | Some v \<Rightarrow> if v = 0 then d else v)"

text \<open>
  \<open>currencyTotals\<close> is a JavaScript object used as a dictionary; \<open>Object.entries\<close>
  lists its keys in the order of their first insertion (the keys are currency codes,
  never integer-like). It is modelled as an association list in that order:
  \<open>obj_set\<close> is the assignment \<open>acc[k] = v\<close>.
\<close>

fun obj_set :: "('k \<times> 'v) list \<Rightarrow> 'k \<Rightarrow> 'v \<Rightarrow> ('k \<times> 'v) list" where
  "obj_set [] k v = [(k, v)]"
| "obj_set ((k', v') # kvs) k v = (if k' = k then (k, v) # kvs else (k', v') # obj_set kvs k v)"

definition currencyTotals :: "Account list \<Rightarrow> (Currency \<times> rat) list" where
  "currencyTotals accounts =
     foldl (\<lambda>acc account.
              obj_set acc (acc_currency account)
                (js_or (map_of acc (acc_currency account)) 0 + initial_balance account))
           [] accounts"

definition dominantCurrency :: "(Currency \<times> rat) list \<Rightarrow> TotalBalance" where
  "dominantCurrency entries =
     foldl (\<lambda>max (currency, amount).
              if amount > total_amount max
              then \<lparr> total_amount = amount, total_currency = currency \<rparr> else max)
           \<lparr> total_amount = 0, total_currency = USD \<rparr> entries"

text \<open>
  \<open>calculateTotalBalance\<close>: the Dashboard and the Analytics page each declare it, with
  the same body.
\<close>

definition calculateTotalBalance :: "Account list \<Rightarrow> TotalBalance" where
  "calculateTotalBalance accounts =
    (case accounts of
       [] \<Rightarrow> \<lparr> total_amount = 0, total_currency = USD \<rparr>
     | first # _ \<Rightarrow>
        (let firstCurrency = acc_currency first;
             allSameCurrency = list_all (\<lambda>account. acc_currency account = firstCurrency) accounts
         in if allSameCurrency
            then \<lparr> total_amount = foldl (\<lambda>sum account. sum + initial_balance account) 0 accounts,
                   total_currency = firstCurrency \<rparr>
            else dominantCurrency (currencyTotals accounts)))"


text \<open>The transactions of the current month; \<open>now\<close> is the value of \<open>new Date()\<close>.\<close>

definition monthlyTransactions :: "civil_date \<Rightarrow> Transaction list \<Rightarrow> Transaction list" where
  "monthlyTransactions now transactions =
     filter (\<lambda>t. getMonth (tx_date t) = getMonth now \<and> getFullYear (tx_date t) = getFullYear now)
            transactions"

text \<open>Dashboard: \<open>monthlyIncome\<close> and \<open>monthlyExpenses\<close>.\<close>

definition monthlyIncome :: "Account list \<Rightarrow> civil_date \<Rightarrow> Transaction list \<Rightarrow> rat" where
  "monthlyIncome accounts now transactions =
    (let totalBalance = calculateTotalBalance accounts;
         monthlyIncomeTransactions =
           filter (\<lambda>t. tx_type t = INCOME) (monthlyTransactions now transactions)
     in foldl (\<lambda>sum t. sum + tx_amount t) 0
          (filter (\<lambda>t. tx_currency t = total_currency totalBalance) monthlyIncomeTransactions))"

definition monthlyExpenses :: "Account list \<Rightarrow> civil_date \<Rightarrow> Transaction list \<Rightarrow> rat" where
  "monthlyExpenses accounts now transactions =
    (let totalBalance = calculateTotalBalance accounts;
         monthlyExpenseTransactions =
           filter (\<lambda>t. tx_type t = EXPENSE) (monthlyTransactions now transactions)
     in foldl (\<lambda>sum t. sum + tx_amount t) 0
          (filter (\<lambda>t. tx_currency t = total_currency totalBalance) monthlyExpenseTransactions))"

text \<open>Analytics page: \<open>totalIncome\<close> and \<open>totalExpenses\<close>.\<close>

definition totalIncome :: "Account list \<Rightarrow> civil_date \<Rightarrow> Transaction list \<Rightarrow> rat" where
  "totalIncome accounts now transactions =
    (let totalBalance = calculateTotalBalance accounts
     in foldl (\<lambda>sum t. sum + tx_amount t) 0
          (filter (\<lambda>t. tx_type t = INCOME \<and> tx_currency t = total_currency totalBalance)
             (monthlyTransactions now transactions)))"






text \<open>The aggregate balance of a currency over an account list.\<close>

definition aggregate_balance :: "Account list \<Rightarrow> Currency \<Rightarrow> rat" where
  "aggregate_balance accounts c =
     sum_list (map initial_balance (filter (\<lambda>a. acc_currency a = c) accounts))"

section \<open>Login form state (utils/loginFormState.ts)\<close>

text \<open>
  The fields of the \<open>LoginFormStateManager\<close> singleton, and the part of the environment
  its methods use: whether \<open>window\<close> is defined, and the contents of \<open>sessionStorage\<close>.
  A method takes the object and the environment and returns both; a getter returns its
  value first. The expression \<open>getItem(k) || ''\<close> gives the empty string for a missing
  key and for a stored empty string. A \<open>setItem\<close> that throws (storage disabled or
  full) is outside the model.
\<close>

record LoginFormStateManager =
  username :: string
  password :: string
  initialized :: bool

record Env =
  window_defined :: bool
  sessionStorage :: "string \<rightharpoonup> string"

definition getItem_or_empty :: "Env \<Rightarrow> string \<Rightarrow> string" where
  "getItem_or_empty env k =
    (case sessionStorage env k of None \<Rightarrow> '''' | Some v \<Rightarrow> if v = '''' then '''' else v)"

definition loadFromStorage :: "LoginFormStateManager \<times> Env \<Rightarrow> LoginFormStateManager \<times> Env" where
  "loadFromStorage = (\<lambda>(this, env).
    if window_defined env
    then (this\<lparr> username := getItem_or_empty env ''login_form_username'',
                password := getItem_or_empty env ''login_form_password'',
                initialized := True \<rparr>, env)
    else (this, env))"

text \<open>The constructor: the field initialisers, then \<open>loadFromStorage\<close>.\<close>

definition new_LoginFormStateManager :: "Env \<Rightarrow> LoginFormStateManager \<times> Env" where
  "new_LoginFormStateManager env =
     loadFromStorage (\<lparr> username = '''', password = '''', initialized = False \<rparr>, env)"

definition getUsername :: "LoginFormStateManager \<times> Env \<Rightarrow> string \<times> LoginFormStateManager \<times> Env" where
  "getUsername s =
    (let s' = (if \<not> initialized (fst s) then loadFromStorage s else s)
     in (username (fst s'), s'))"

definition getPassword :: "LoginFormStateManager \<times> Env \<Rightarrow> string \<times> LoginFormStateManager \<times> Env" where
  "getPassword s =
    (let s' = (if \<not> initialized (fst s) then loadFromStorage s else s)
     in (password (fst s'), s'))"

definition setUsername :: "string \<Rightarrow> LoginFormStateManager \<times> Env \<Rightarrow> LoginFormStateManager \<times> Env" where
  "setUsername v = (\<lambda>(this, env).
    (this\<lparr> username := v \<rparr>,
     if window_defined env
     then env\<lparr> sessionStorage := (sessionStorage env)(''login_form_username'' \<mapsto> v) \<rparr>
     else env))"

definition setPassword :: "string \<Rightarrow> LoginFormStateManager \<times> Env \<Rightarrow> LoginFormStateManager \<times> Env" where
  "setPassword v = (\<lambda>(this, env).
    (this\<lparr> password := v \<rparr>,
     if window_defined env
     then env\<lparr> sessionStorage := (sessionStorage env)(''login_form_password'' \<mapsto> v) \<rparr>
     else env))"

definition clear :: "LoginFormStateManager \<times> Env \<Rightarrow> LoginFormStateManager \<times> Env" where
  "clear = (\<lambda>(this, env).
    (this\<lparr> username := '''', password := '''' \<rparr>,
     if window_defined env
     then env\<lparr> sessionStorage :=
                 (sessionStorage env)(''login_form_username'' := None,
                                      ''login_form_password'' := None) \<rparr>
     else env))"

section \<open>Recurring transactions (the backend handler, not among the sources)\<close>

text \<open>
  The frontend only calls \<open>POST /recurring-transactions/{id}/process\<close>; the code that
  fires a template runs in the backend. The record is the \<open>RecurringTransaction\<close>
  interface of the frontend models, with the dates parsed; the operations follow the
  spec (sections 3 and 4.2).
\<close>

record RecurringTransaction =
  rt_id :: int
  rt_name :: string
  rt_amount :: rat
  rt_type :: TransactionType
  rt_description :: "string option"
  rt_currency :: Currency
  frequency :: RecurrenceFrequency
  start_date :: civil_date
  end_date :: "civil_date option"
  next_due_date :: civil_date
  is_active :: bool
  created_at :: civil_date
  rt_account_id :: int
  rt_category_id :: "int option"
  rt_owner_id :: int

text \<open>
  The two ways a firing is refused (section 4.2): the template does not exist or is not
  the caller's, or it is inactive.
\<close>

datatype process_error = NotFoundError | InactiveTemplate

text \<open>
  Modelled from the spec: the date arithmetic of the backend's firing handler is
  missing. "+1 day": the next calendar day.
\<close>

definition next_day :: "civil_date \<Rightarrow> civil_date" where
  "next_day d =
    (if d_day d < days_in_month (d_year d) (d_month d) then d\<lparr> d_day := d_day d + 1 \<rparr>
     else if d_month d < 12 then d\<lparr> d_month := d_month d + 1, d_day := 1 \<rparr>
     else \<lparr> d_year = d_year d + 1, d_month = 1, d_day = 1 \<rparr>)"

text \<open>Modelled from the spec: "+n days" is the next calendar day, taken n times.\<close>

definition add_days :: "nat \<Rightarrow> civil_date \<Rightarrow> civil_date" where
  "add_days n d = (next_day ^^ n) d"

text \<open>
  Modelled from the spec: "+n calendar months, preserving day-of-month where valid",
  and where the day does not exist in the target month, the last valid day of that
  month (section 8: January 31 goes to the last day of February).
\<close>

definition add_months :: "nat \<Rightarrow> civil_date \<Rightarrow> civil_date" where
  "add_months n d =
    (let total = d_year d * 12 + (d_month d - 1) + n;
         y = total div 12;
         m = total mod 12 + 1
     in \<lparr> d_year = y, d_month = m, d_day = min (d_day d) (days_in_month y m) \<rparr>)"

text \<open>
  Modelled from the spec: one period of each frequency (section 4.2). A calendar year
  is twelve calendar months, so February 29 goes to February 28 of the next year.
\<close>

definition advance :: "RecurrenceFrequency \<Rightarrow> civil_date \<Rightarrow> civil_date" where
  "advance f d =
    (case f of
       DAILY \<Rightarrow> add_days 1 d
     | WEEKLY \<Rightarrow> add_days 7 d
     | MONTHLY \<Rightarrow> add_months 1 d
     | QUARTERLY \<Rightarrow> add_months 3 d
     | YEARLY \<Rightarrow> add_months 12 d)"

text \<open>
  Modelled from the spec: creating a template (the request type is
  \<open>CreateRecurringTransactionData\<close>); the handler is missing. A new template is active
  and first due on its start date, which section 8's example of a template started on
  2024-01-31 presupposes.
\<close>

definition create_recurring ::
  "int \<Rightarrow> int \<Rightarrow> civil_date \<Rightarrow> string \<Rightarrow> rat \<Rightarrow> TransactionType \<Rightarrow> Currency \<Rightarrow>
   RecurrenceFrequency \<Rightarrow> civil_date \<Rightarrow> civil_date option \<Rightarrow> int \<Rightarrow> RecurringTransaction"
where
  "create_recurring new_id owner today nm amt ty cur freq start end_opt account =
     \<lparr> rt_id = new_id, rt_name = nm, rt_amount = amt, rt_type = ty, rt_description = None,
       rt_currency = cur, frequency = freq, start_date = start, end_date = end_opt,
       next_due_date = start, is_active = True, created_at = today,
       rt_account_id = account,
       rt_category_id = None, rt_owner_id = owner \<rparr>"

text \<open>
  Modelled from the spec: one firing of a template (section 4.2, "process one
  template"); the handler is missing. An inactive template is rejected. Otherwise one
  transaction is created from the template, with a reference back to it, the due date
  advances by one period, and the template becomes inactive when the new due date
  exceeds the end date. The id and the date of the new transaction are arguments: the
  spec leaves both open.
\<close>

definition process_recurring ::
  "int \<Rightarrow> civil_date \<Rightarrow> RecurringTransaction \<Rightarrow> process_error + (Transaction \<times> RecurringTransaction)"
where
  "process_recurring new_id today t =
    (if \<not> is_active t then Inl InactiveTemplate
     else
       (let tx = \<lparr> tx_id = new_id, tx_amount = rt_amount t, tx_type = rt_type t,
                   tx_description = rt_description t, tx_date = today,
                   tx_currency = rt_currency t, tx_account_id = rt_account_id t,
                   tx_category_id = rt_category_id t, tx_owner_id = rt_owner_id t,
                   recurring_transaction_id = Some (rt_id t) \<rparr>;
            due = advance (frequency t) (next_due_date t);
            still_active = (case end_date t of None \<Rightarrow> True | Some e \<Rightarrow> \<not> date_less e due)
        in Inr (tx, t\<lparr> next_due_date := due, is_active := still_active \<rparr>)))"

section \<open>The transfer operation (the backend handler, not among the sources)\<close>

text \<open>
  The frontend only posts the form data to \<open>/transactions/transfers\<close>
  (\<open>transactionService.createTransfer\<close>); the handler that validates the request and
  writes the rows runs in the backend. The definitions of this section follow the spec
  (sections 3, 4.1 and 7), whose amounts are decimals: exact rationals here. The
  response record is the \<open>TransferResponse\<close> interface of the frontend service (its
  field \<open>converted_amount\<close> is \<open>converted_amount_out\<close> here, the request having taken
  the name).
\<close>

record TransferRequest =
  req_from_account_id :: int
  req_to_account_id :: int
  req_amount :: rat
  req_converted_amount :: "rat option"
  req_description :: "string option"

record TransferResponse =
  expense :: Transaction
  income :: Transaction
  exchange_rate :: rat
  converted_amount_out :: rat

text \<open>The persisted state the operation reads and writes: the accounts and the rows.\<close>

record Store =
  stored_accounts :: "Account list"
  stored_transactions :: "Transaction list"

text \<open>The error of the taxonomy (section 7) that section 4.1 gives the operation.\<close>

datatype transfer_error = ValidationError

text \<open>
  Modelled from the spec: "both accounts exist and are owned by the requesting user";
  the lookup of the handler is missing.
\<close>

definition owned_account :: "Store \<Rightarrow> int \<Rightarrow> int \<Rightarrow> Account option" where
  "owned_account store caller i =
     find (\<lambda>a. acc_id a = i \<and> acc_owner_id a = caller) (stored_accounts store)"

text \<open>
  Modelled from the spec: the effective rate and the converted amount (section 4.1); the
  handler is missing. Same currency: rate 1 and the amount itself. Otherwise a supplied
  converted amount gives the rate converted / amount, rounded to 4 decimals, and is
  kept at full precision; with none supplied the amount goes to USD by the source
  currency's rate and from USD by the destination's, rounded to 2 decimals, with the rate
  rounded to 4. The rounding to a number of decimals and the rate table are arguments:
  the spec fixes neither the rounding mode nor the table's contents, and does
  not say what a rate of 0 means (the division is HOL's, which gives 0 there).
\<close>

definition effective_rate ::
  "(nat \<Rightarrow> rat \<Rightarrow> rat) \<Rightarrow> (Currency \<Rightarrow> rat) \<Rightarrow> Account \<Rightarrow> Account \<Rightarrow> rat \<Rightarrow> rat option \<Rightarrow>
   rat \<times> rat"
where
  "effective_rate round_to rate_to_usd src dst amt supplied =
    (if acc_currency src = acc_currency dst then (1, amt)
     else case supplied of
       Some c \<Rightarrow> (round_to 4 (c / amt), c)
     | None \<Rightarrow>
         (let usd = amt / rate_to_usd (acc_currency src);
              converted = usd * rate_to_usd (acc_currency dst)
          in (round_to 4 (converted / amt), round_to 2 converted)))"

text \<open>
  Modelled from the spec: the transfer operation (section 4.1); the handler is missing.
  It fails with a ValidationError when the amount is not positive, when the two
  accounts are identical, when either account is not found or not owned by the caller,
  or when a converted amount is supplied but not positive, and then leaves the store as
  it was. Otherwise it appends exactly two rows, one EXPENSE on the source account and
  one INCOME on the destination account, and returns both with the effective rate and
  the converted amount. The ids and the date of the new rows are arguments: the spec
  leaves them open.
\<close>

definition create_transfer ::
  "(nat \<Rightarrow> rat \<Rightarrow> rat) \<Rightarrow> (Currency \<Rightarrow> rat) \<Rightarrow> int \<Rightarrow> civil_date \<Rightarrow> int \<Rightarrow> int \<Rightarrow>
   Store \<Rightarrow> TransferRequest \<Rightarrow> (transfer_error + TransferResponse) \<times> Store"
where
  "create_transfer round_to rate_to_usd caller today expense_id income_id store req =
    (if req_amount req \<le> 0 then (Inl ValidationError, store)
     else if req_from_account_id req = req_to_account_id req then (Inl ValidationError, store)
     else case owned_account store caller (req_from_account_id req) of
       None \<Rightarrow> (Inl ValidationError, store)
     | Some src \<Rightarrow>
      (case owned_account store caller (req_to_account_id req) of
         None \<Rightarrow> (Inl ValidationError, store)
       | Some dst \<Rightarrow>
          if (case req_converted_amount req of None \<Rightarrow> False | Some c \<Rightarrow> c \<le> 0)
          then (Inl ValidationError, store)
          else
            (let (rate, converted) =
                   effective_rate round_to rate_to_usd src dst (req_amount req)
                     (req_converted_amount req);
                 expense_row =
                   \<lparr> tx_id = expense_id, tx_amount = req_amount req, tx_type = EXPENSE,
                     tx_description = req_description req, tx_date = today,
                     tx_currency = acc_currency src, tx_account_id = acc_id src,
                     tx_category_id = None, tx_owner_id = caller,
                     recurring_transaction_id = None \<rparr>;
                 income_row =
                   \<lparr> tx_id = income_id, tx_amount = converted, tx_type = INCOME,
                     tx_description = req_description req, tx_date = today,
                     tx_currency = acc_currency dst, tx_account_id = acc_id dst,
                     tx_category_id = None, tx_owner_id = caller,
                     recurring_transaction_id = None \<rparr>
             in (Inr \<lparr> expense = expense_row, income = income_row,
                        exchange_rate = rate, converted_amount_out = converted \<rparr>,
                 store\<lparr> stored_transactions :=
                          stored_transactions store @ [expense_row, income_row] \<rparr>))))"

section \<open>Example data\<close>

text \<open>Concrete accounts, requests and a rate table, for the instances below.\<close>

definition mk_account :: "int \<Rightarrow> Currency \<Rightarrow> rat \<Rightarrow> Account" where
  "mk_account i c b = \<lparr> acc_id = i, acc_name = ''account'', acc_type = CHECKING,
      initial_balance = b, acc_currency = c, acc_owner_id = 1 \<rparr>"

definition mk_request :: "int \<Rightarrow> int \<Rightarrow> double \<Rightarrow> double option \<Rightarrow> TransferCreateRequest" where
  "mk_request i j a c = \<lparr> from_account_id = i, to_account_id = j, amount = a,
      converted_amount = c, description = '''' \<rparr>"

text \<open>The rate table \<open>{"USD": 1, "EUR": 0.9, "EGP": 50}\<close>.\<close>

definition ex_rates :: "Currency \<rightharpoonup> double" where
  "ex_rates = [USD \<mapsto> Finite 1, EUR \<mapsto> dbl (9 / 10), EGP \<mapsto> Finite 50]"

definition mk_date :: "nat \<Rightarrow> nat \<Rightarrow> nat \<Rightarrow> civil_date" where
  "mk_date y m d = \<lparr> d_year = y, d_month = m, d_day = d \<rparr>"

definition mk_tx :: "int \<Rightarrow> TransactionType \<Rightarrow> rat \<Rightarrow> Currency \<Rightarrow> int \<Rightarrow> civil_date \<Rightarrow> Transaction" where
  "mk_tx i ty a c acct d = \<lparr> tx_id = i, tx_amount = a, tx_type = ty, tx_description = None,
      tx_date = d, tx_currency = c, tx_account_id = acct, tx_category_id = None,
      tx_owner_id = 1, recurring_transaction_id = None \<rparr>"

definition ex_login :: "LoginFormStateManager \<times> Env" where
  "ex_login = new_LoginFormStateManager
      \<lparr> window_defined = True, sessionStorage = [''login_form_password'' \<mapsto> ''secret''] \<rparr>"

definition ex_store :: Store where
  "ex_store = \<lparr> stored_accounts = [mk_account 1 EUR 100, mk_account 2 USD 30],
                stored_transactions =
                  [mk_tx 1 INCOME 50 EUR 1 (mk_date 2024 5 10)] \<rparr>"

definition mk_transfer_request :: "int \<Rightarrow> int \<Rightarrow> rat \<Rightarrow> TransferRequest" where
  "mk_transfer_request i j a = \<lparr> req_from_account_id = i, req_to_account_id = j,
      req_amount = a, req_converted_amount = None, req_description = None \<rparr>"

definition ex_template :: RecurringTransaction where
  "ex_template = create_recurring 7 1 \<lparr> d_year = 2024, d_month = 1, d_day = 15 \<rparr>
                   ''rent'' 500 EXPENSE EUR MONTHLY
                   \<lparr> d_year = 2024, d_month = 1, d_day = 31 \<rparr> None 1"

section \<open>Binary64 rounding\<close>

text \<open>
  The rounded value of a rational is determined by its binary exponent \<open>e\<close> and the
  integer \<open>m\<close> nearest to it in units of \<open>2 ^ (e - 52)\<close>; with both given, a rounding
  is checked by comparing numerals.
\<close>

lemma pow2_pos: "0 < pow2 n"
  by (simp add: pow2_def)

lemma pow2_nat: "pow2 (int j) = 2 ^ j"
  by (simp add: pow2_def)

lemma pow2_neg_nat: "pow2 (- int j) = 1 / 2 ^ j"
  by (cases j) (simp_all add: pow2_def nat_add_distrib)

lemma pow2_ge_1: "0 \<le> n \<Longrightarrow> 1 \<le> pow2 n"
  by (simp add: pow2_def)

lemma pow2_le_1: "n \<le> 0 \<Longrightarrow> pow2 n \<le> 1"
  by (simp add: pow2_def)

lemma bits_eqI: "2 ^ j \<le> n \<Longrightarrow> n < 2 ^ Suc j \<Longrightarrow> bits n = int j + 1"
proof (induction j arbitrary: n)
  case 0
  then have "n = 1" by simp
  then show ?case by (simp add: bits.simps)
next
  case (Suc j)
  from Suc.prems have pos: "0 < n"
    by (smt (verit) zero_less_power)
  from Suc.prems have "2 ^ j \<le> n div 2" "n div 2 < 2 ^ Suc j"
    by simp_all
  then have "bits (n div 2) = int j + 1" by (rule Suc.IH)
  with pos show ?case by (subst bits.simps) simp
qed

lemma exponent_eqI:
  assumes lo: "pow2 e \<le> a" and hi: "a < pow2 (e + 1)"
  shows "exponent a = e"
proof (cases "1 \<le> a")
  case True
  with hi have "1 < pow2 (e + 1)" by simp
  then have "0 \<le> e"
    using pow2_le_1 [of "e + 1"] by (cases "e + 1 \<le> 0") simp_all
  then obtain j where j: "e = int j" by (metis nonneg_int_cases)
  have "rat_of_int (2 ^ j) \<le> a" using lo by (simp add: j pow2_nat)
  then have l: "2 ^ j \<le> \<lfloor>a\<rfloor>" by (simp add: le_floor_iff)
  have "a < rat_of_int (2 ^ Suc j)"
    using hi by (simp add: j pow2_def nat_add_distrib)
  then have h: "\<lfloor>a\<rfloor> < 2 ^ Suc j" by (simp add: floor_less_iff)
  from bits_eqI [OF l h] True show ?thesis by (simp add: exponent_def j)
next
  case False
  then have a1: "a < 1" by simp
  have apos: "0 < a" using lo pow2_pos [of e] by simp
  from lo a1 have "pow2 e < 1" by simp
  then have "e < 0"
    using pow2_ge_1 [of e] by (cases "0 \<le> e") simp_all
  then obtain k where k: "e = - int (Suc k)"
    by (metis add.inverse_inverse neg_0_less_iff_less pos_int_cases Suc_pred' of_nat_0_less_iff)
  have lo': "1 / 2 ^ Suc k \<le> a" using lo unfolding k pow2_neg_nat .
  have hi': "a < 1 / 2 ^ k"
  proof -
    have "e + 1 = - int k" by (simp add: k)
    with hi show ?thesis by (simp add: pow2_neg_nat)
  qed
  from lo' apos have u: "1 / a \<le> 2 ^ Suc k"
    by (simp add: field_simps del: power_Suc)
  from hi' apos have l: "2 ^ k < 1 / a"
    by (simp add: field_simps)
  have "\<lceil>1 / a\<rceil> \<le> 2 ^ Suc k"
    using u by (simp add: ceiling_le_iff del: power_Suc)
  then have h: "\<lceil>1 / a\<rceil> - 1 < 2 ^ Suc k" by simp
  have "2 ^ k < \<lceil>1 / a\<rceil>"
    using l by (simp add: less_ceiling_iff)
  then have l': "2 ^ k \<le> \<lceil>1 / a\<rceil> - 1" by simp
  from bits_eqI [OF l' h] False show ?thesis by (simp add: exponent_def k)
qed

lemma round_half_even_eqI:
  assumes "\<bar>r - of_int m\<bar> < 1 / 2"
  shows "round_half_even r = m"
proof (cases "of_int m \<le> r")
  case True
  with assms have "\<lfloor>r\<rfloor> = m" by (intro floor_unique) (simp_all add: abs_less_iff)
  with assms True show ?thesis by (simp add: round_half_even_def Let_def abs_less_iff)
next
  case False
  with assms have f: "\<lfloor>r\<rfloor> = m - 1" by (intro floor_unique) (simp_all add: abs_less_iff)
  with assms False show ?thesis
    by (simp add: round_half_even_def Let_def abs_less_iff)
qed

lemma fl_eqI:
  assumes "pow2 e \<le> \<bar>x\<bar>" and "\<bar>x\<bar> < pow2 (e + 1)" and "- 1022 \<le> e"
    and "\<bar>x / pow2 (e - 52) - of_int m\<bar> < 1 / 2"
  shows "fl x = of_int m * pow2 (e - 52)"
proof -
  have "x \<noteq> 0" using assms(1) pow2_pos [of e] by auto
  moreover have "exponent \<bar>x\<bar> = e" using assms(1,2) by (rule exponent_eqI)
  moreover have "round_half_even (x / pow2 (e - 52)) = m"
    using assms(4) by (rule round_half_even_eqI)
  ultimately show ?thesis using assms(3) by (simp add: fl_def Let_def max_def)
qed

lemma dbl_eqI:
  assumes "pow2 e \<le> \<bar>x\<bar>" and "\<bar>x\<bar> < pow2 (e + 1)" and "- 1022 \<le> e"
    and "\<bar>x / pow2 (e - 52) - of_int m\<bar> < 1 / 2"
    and "y = of_int m * pow2 (e - 52)" and "\<bar>y\<bar> < pow2 1024"
  shows "dbl x = Finite y"
  using fl_eqI [OF assms(1-4)] assms(5,6) by (simp add: dbl_def Let_def)

lemma dbl_overflowI:
  assumes "pow2 e \<le> \<bar>x\<bar>" and "\<bar>x\<bar> < pow2 (e + 1)" and "- 1022 \<le> e"
    and "\<bar>x / pow2 (e - 52) - of_int m\<bar> < 1 / 2"
    and "pow2 1024 \<le> \<bar>of_int m * pow2 (e - 52)\<bar>" and "0 < x"
  shows "dbl x = PosInf"
  using fl_eqI [OF assms(1-4)] assms(5,6) by (simp add: dbl_def Let_def)

text \<open>A \<open>reduce\<close> that adds one field is the sum of the list of that field.\<close>

lemma foldl_plus_sum_list:
  "foldl (\<lambda>s x. s + f x) z xs = z + sum_list (map f xs)"
  for z :: rat
  by (induction xs arbitrary: z) (simp_all add: add.assoc)

section \<open>Same-currency transfers\<close>

text \<open>
  C6. For a transfer between two accounts of the same currency (both accounts are in the
  list and the amount is not rejected by the test \<open>amount <= 0\<close>, so that a preview exists), the
  exchange rate is 1 and the converted amount is the input amount. The exchange-rate
  table, the custom-rate switch and a supplied converted amount do not occur in the
  result: no lookup is made.
\<close>

theorem same_currency_preview:
  assumes "find_account accounts (from_account_id td) = Some fa"
    and "find_account accounts (to_account_id td) = Some ta"
    and "acc_currency fa = acc_currency ta"
    and "\<not> dle (amount td) (Finite 0)"
  shows "getConversionPreview accounts rates custom td =
           Some \<lparr> originalAmount = amount td, convertedAmount = amount td,
                  exchangeRate = Finite 1, sameCurrency = True, isCustomRate = False \<rparr>"
  using assms by (simp add: getConversionPreview_def)

theorem same_currency_preview_witness:
  "getConversionPreview [mk_account 1 EUR 100, mk_account 2 EUR 0] ex_rates True
       (mk_request 1 2 (Finite 40) (Some (Finite 7)))
     = Some \<lparr> originalAmount = Finite 40, convertedAmount = Finite 40,
              exchangeRate = Finite 1, sameCurrency = True, isCustomRate = False \<rparr>"
proof -
  have a: "find_account [mk_account 1 EUR 100, mk_account 2 EUR 0]
             (from_account_id (mk_request 1 2 (Finite 40) (Some (Finite 7))))
           = Some (mk_account 1 EUR 100)"
    by (simp add: find_account_def mk_account_def mk_request_def)
  have b: "find_account [mk_account 1 EUR 100, mk_account 2 EUR 0]
             (to_account_id (mk_request 1 2 (Finite 40) (Some (Finite 7))))
           = Some (mk_account 2 EUR 0)"
    by (simp add: find_account_def mk_account_def mk_request_def)
  have c: "acc_currency (mk_account 1 EUR 100) = acc_currency (mk_account 2 EUR 0)"
    by (simp add: mk_account_def)
  have d: "\<not> dle (amount (mk_request 1 2 (Finite 40) (Some (Finite 7)))) (Finite 0)"
    by (simp add: mk_request_def)
  from same_currency_preview [OF a b c d, of ex_rates True]
  show ?thesis by (simp add: mk_request_def)
qed

section \<open>Computed conversion\<close>

text \<open>
  C1, as stated, fails where the product overflows: for an amount of \<open>2 ^ 1023\<close>
  (entered as 8.98846567431158e307) from a USD account to an EGP account at the rates
  1 and 50, the amount in USD is \<open>2 ^ 1023\<close>, its product with 50 is beyond the
  largest binary64 value, and the returned converted amount and exchange rate are both
  Infinity, which is not a number rounded to 2 or to 4 decimal places.
\<close>

theorem computed_conversion_overflow_counterexample:
  "getConversionPreview [mk_account 1 USD 0, mk_account 2 EGP 0] ex_rates False
       (mk_request 1 2 (Finite (2 ^ 1023)) None)
     = Some \<lparr> originalAmount = Finite (2 ^ 1023), convertedAmount = PosInf,
              exchangeRate = PosInf, sameCurrency = False, isCustomRate = False \<rparr>"
proof -
  define A :: rat where "A = 2 ^ 1023"
  have pos: "0 < A" by (simp add: A_def)
  have s1: "fdiv (Finite A) (Finite 1) = Finite A"
    unfolding A_def
    by (simp, rule dbl_eqI [where e = 1023 and m = "2 ^ 52"], simp_all add: pow2_def)
  have s2: "fmul (Finite A) (Finite 50) = PosInf"
    unfolding A_def
    by (simp, rule dbl_overflowI [where e = 1028 and m = "50 * 2 ^ 47"],
        simp_all add: pow2_def)
  have s3: "fmul PosInf (Finite 100) = PosInf" "fmul PosInf (Finite 10000) = PosInf"
    by (simp_all add: inf_of_def)
  have s4: "fdiv PosInf (Finite 100) = PosInf" "fdiv PosInf (Finite 10000) = PosInf"
    "fdiv PosInf (Finite A) = PosInf"
    using pos by simp_all
  show ?thesis
    unfolding A_def [symmetric]
    using pos
    by (simp add: getConversionPreview_def find_account_def mk_account_def mk_request_def
        ex_rates_def or_default_def truthy_def truthy_and_positive_def s1 s2 s3 s4
        del: fmul.simps fdiv.simps)
qed

text \<open>
  C1, amended. For a cross-currency transfer with no converted amount supplied (both
  accounts in the list, the amount not rejected by the test \<open>amount <= 0\<close>), the preview takes
  each currency's rate from the exchange-rate table (\<open>fromRate\<close>, \<open>toRate\<close>: the
  table's entry where it is present and not falsy), divides the amount by the source
  rate to get the USD amount and multiplies by the destination rate, in binary64
  arithmetic. The returned converted amount is \<open>Math.round(x * 100) / 100\<close> of that
  product \<open>x\<close>: whenever \<open>x * 100\<close> is finite, the binary64 value of \<open>k / 100\<close> for the
  integer \<open>k\<close> nearest to \<open>x * 100\<close>, that is, of a number with 2 decimal places. The
  returned exchange rate is \<open>Math.round(r * 10000) / 10000\<close> of the quotient \<open>r\<close> of the
  product and the amount: whenever \<open>r * 10000\<close> is finite, the binary64 value of a
  number with 4 decimal places. Where the scaled value is infinite, so is the result.
\<close>

theorem computed_conversion:
  assumes "find_account accounts (from_account_id td) = Some fa"
    and "find_account accounts (to_account_id td) = Some ta"
    and "acc_currency fa \<noteq> acc_currency ta"
    and "\<not> dle (amount td) (Finite 0)"
    and "converted_amount td = None"
  shows "\<exists>p fromRate toRate usd x r.
           getConversionPreview accounts rates custom td = Some p \<and>
           fromRate = or_default (rates (acc_currency fa)) (Finite 1) \<and>
           toRate = or_default (rates (acc_currency ta)) (Finite 1) \<and>
           (\<forall>v. rates (acc_currency fa) = Some v \<and> truthy v \<longrightarrow> fromRate = v) \<and>
           (\<forall>v. rates (acc_currency ta) = Some v \<and> truthy v \<longrightarrow> toRate = v) \<and>
           usd = fdiv (amount td) fromRate \<and>
           x = fmul usd toRate \<and>
           r = fdiv x (amount td) \<and>
           convertedAmount p = fdiv (Math_round (fmul x (Finite 100))) (Finite 100) \<and>
           exchangeRate p = fdiv (Math_round (fmul r (Finite 10000))) (Finite 10000) \<and>
           (\<forall>s. fmul x (Finite 100) = Finite s \<longrightarrow>
                \<bar>of_int \<lfloor>s + 1 / 2\<rfloor> - s\<bar> \<le> 1 / 2 \<and>
                convertedAmount p = dbl (of_int \<lfloor>s + 1 / 2\<rfloor> / 100)) \<and>
           (\<forall>s. fmul r (Finite 10000) = Finite s \<longrightarrow>
                \<bar>of_int \<lfloor>s + 1 / 2\<rfloor> - s\<bar> \<le> 1 / 2 \<and>
                exchangeRate p = dbl (of_int \<lfloor>s + 1 / 2\<rfloor> / 10000)) \<and>
           (fmul x (Finite 100) = PosInf \<longrightarrow> convertedAmount p = PosInf) \<and>
           (fmul r (Finite 10000) = PosInf \<longrightarrow> exchangeRate p = PosInf) \<and>
           originalAmount p = amount td \<and> \<not> sameCurrency p \<and> \<not> isCustomRate p"
proof -
  define fromRate where "fromRate = or_default (rates (acc_currency fa)) (Finite 1)"
  define toRate where "toRate = or_default (rates (acc_currency ta)) (Finite 1)"
  define usd where "usd = fdiv (amount td) fromRate"
  define x where "x = fmul usd toRate"
  define r where "r = fdiv x (amount td)"
  define p where "p = \<lparr> originalAmount = amount td,
      convertedAmount = fdiv (Math_round (fmul x (Finite 100))) (Finite 100),
      exchangeRate = fdiv (Math_round (fmul r (Finite 10000))) (Finite 10000),
      sameCurrency = False, isCustomRate = False \<rparr>"
  have run: "getConversionPreview accounts rates custom td = Some p"
    using assms
    by (simp add: getConversionPreview_def Let_def p_def r_def x_def usd_def fromRate_def
        toRate_def truthy_and_positive_def)
  have lookup_from: "\<forall>v. rates (acc_currency fa) = Some v \<and> truthy v \<longrightarrow> fromRate = v"
    by (simp add: fromRate_def or_default_def)
  have lookup_to: "\<forall>v. rates (acc_currency ta) = Some v \<and> truthy v \<longrightarrow> toRate = v"
    by (simp add: toRate_def or_default_def)
  have near: "\<bar>rat_of_int \<lfloor>s + 1 / 2\<rfloor> - s\<bar> \<le> 1 / 2" for s :: rat
    by linarith
  have cents: "\<forall>s. fmul x (Finite 100) = Finite s \<longrightarrow>
      \<bar>of_int \<lfloor>s + 1 / 2\<rfloor> - s\<bar> \<le> 1 / 2 \<and>
      convertedAmount p = dbl (of_int \<lfloor>s + 1 / 2\<rfloor> / 100)"
    using near by (simp add: p_def)
  have rate4: "\<forall>s. fmul r (Finite 10000) = Finite s \<longrightarrow>
      \<bar>of_int \<lfloor>s + 1 / 2\<rfloor> - s\<bar> \<le> 1 / 2 \<and>
      exchangeRate p = dbl (of_int \<lfloor>s + 1 / 2\<rfloor> / 10000)"
    using near by (simp add: p_def)
  have inf: "(fmul x (Finite 100) = PosInf \<longrightarrow> convertedAmount p = PosInf) \<and>
      (fmul r (Finite 10000) = PosInf \<longrightarrow> exchangeRate p = PosInf)"
    by (simp add: p_def)
  have rest: "originalAmount p = amount td \<and> \<not> sameCurrency p \<and> \<not> isCustomRate p"
    and conv: "convertedAmount p = fdiv (Math_round (fmul x (Finite 100))) (Finite 100)"
    and rate: "exchangeRate p = fdiv (Math_round (fmul r (Finite 10000))) (Finite 10000)"
    by (simp_all add: p_def)
  show ?thesis
    using run lookup_from lookup_to cents rate4 inf rest conv rate
      fromRate_def toRate_def usd_def x_def r_def
    by blast
qed

text \<open>
  An instance: 1.15 USD to EUR at the rates 1 and 0.9. The product of the two binary64
  values is 1.035, times 100 is 103.49999999999999, and the preview shows 1.03 at the
  rate 0.9.
\<close>

theorem computed_conversion_witness:
  "\<exists>p. getConversionPreview [mk_account 1 USD 0, mk_account 2 EUR 0] ex_rates False
            (mk_request 1 2 (dbl (115 / 100)) None) = Some p \<and>
       convertedAmount p = dbl (103 / 100) \<and> exchangeRate p = dbl (9 / 10)"
proof -
  let ?accounts = "[mk_account 1 USD 0, mk_account 2 EUR 0]"
  let ?td = "mk_request 1 2 (dbl (115 / 100)) None"
  have a: "dbl (115 / 100) = Finite (2589569785738035 / 2251799813685248)"
    by (rule dbl_eqI [where e = 0 and m = 5179139571476070]) (simp_all add: pow2_def)
  have r: "dbl (9 / 10) = Finite (8106479329266893 / 9007199254740992)"
    by (rule dbl_eqI [where e = "- 1" and m = 8106479329266893]) (simp_all add: pow2_def)
  have s1: "fdiv (Finite (2589569785738035 / 2251799813685248)) (Finite (1)) = Finite (2589569785738035 / 2251799813685248)"
    by (simp, rule dbl_eqI [where e = 0 and m = 5179139571476070], simp_all add: pow2_def)
  have s2: "fmul (Finite (2589569785738035 / 2251799813685248)) (Finite (8106479329266893 / 9007199254740992)) = Finite (4661225614328463 / 4503599627370496)"
    by (simp, rule dbl_eqI [where e = 0 and m = 4661225614328463], simp_all add: pow2_def)
  have s3: "fmul (Finite (4661225614328463 / 4503599627370496)) (Finite (100)) = Finite (7283165022388223 / 70368744177664)"
    by (simp, rule dbl_eqI [where e = 6 and m = 7283165022388223], simp_all add: pow2_def)
  have m1: "Math_round (Finite (7283165022388223 / 70368744177664)) = Finite 103"
    by (simp add: floor_unique)
  have s4: "fdiv (Finite (4661225614328463 / 4503599627370496)) (Finite (2589569785738035 / 2251799813685248)) = Finite (8106479329266893 / 9007199254740992)"
    by (simp, rule dbl_eqI [where e = "- 1" and m = 8106479329266893], simp_all add: pow2_def)
  have s5: "fmul (Finite (8106479329266893 / 9007199254740992)) (Finite (10000)) = Finite (9000)"
    by (simp, rule dbl_eqI [where e = 13 and m = 4947802324992000], simp_all add: pow2_def)
  have m2: "Math_round (Finite (9000)) = Finite 9000"
    by (simp add: floor_unique)
  have f1: "find_account ?accounts (from_account_id ?td) = Some (mk_account 1 USD 0)"
    by (simp add: find_account_def mk_account_def mk_request_def)
  have f2: "find_account ?accounts (to_account_id ?td) = Some (mk_account 2 EUR 0)"
    by (simp add: find_account_def mk_account_def mk_request_def)
  have f3: "acc_currency (mk_account 1 USD 0) \<noteq> acc_currency (mk_account 2 EUR 0)"
    by (simp add: mk_account_def)
  have f4: "\<not> dle (amount ?td) (Finite 0)"
    unfolding mk_request_def a by simp
  have f5: "converted_amount ?td = None"
    by (simp add: mk_request_def)
  have from_rate: "or_default (ex_rates (acc_currency (mk_account 1 USD 0))) (Finite 1) = Finite 1"
    by (simp add: ex_rates_def mk_account_def or_default_def truthy_def)
  have to_rate: "or_default (ex_rates (acc_currency (mk_account 2 EUR 0))) (Finite 1)
      = Finite (8106479329266893 / 9007199254740992)"
    by (simp add: ex_rates_def mk_account_def or_default_def truthy_def r)
  have amt: "amount ?td = Finite (2589569785738035 / 2251799813685248)"
    unfolding mk_request_def a by simp
  from computed_conversion [OF f1 f2 f3 f4 f5, of ex_rates False]
  obtain p where run: "getConversionPreview ?accounts ex_rates False ?td = Some p"
    and conv: "convertedAmount p =
      fdiv (Math_round (fmul (fmul (fdiv (amount ?td)
        (or_default (ex_rates (acc_currency (mk_account 1 USD 0))) (Finite 1)))
        (or_default (ex_rates (acc_currency (mk_account 2 EUR 0))) (Finite 1)))
        (Finite 100))) (Finite 100)"
    and rate: "exchangeRate p =
      fdiv (Math_round (fmul (fdiv (fmul (fdiv (amount ?td)
        (or_default (ex_rates (acc_currency (mk_account 1 USD 0))) (Finite 1)))
        (or_default (ex_rates (acc_currency (mk_account 2 EUR 0))) (Finite 1)))
        (amount ?td)) (Finite 10000))) (Finite 10000)"
    by blast
  have "convertedAmount p = dbl (103 / 100)"
    unfolding conv from_rate to_rate amt s1 s2 s3 m1 by simp
  moreover have "exchangeRate p = dbl (9 / 10)"
    unfolding rate from_rate to_rate amt s1 s2 s4 s5 m2 by simp
  ultimately show ?thesis using run by blast
qed

section \<open>User-specified rate\<close>

text \<open>
  C5, as stated, fails in two ways. For two accounts of the same currency the
  same-currency branch comes first: with a converted amount of 50 supplied for an
  amount of 100 the rate is 1, while 50 / 100 rounded to 4 decimals is 0.5. And where
  the quotient overflows the rate is Infinity: a converted amount of \<open>2 ^ 1023\<close> for an
  amount of 0.5.
\<close>

theorem custom_rate_counterexample:
  "getConversionPreview [mk_account 1 EUR 100, mk_account 2 EUR 0] ex_rates True
       (mk_request 1 2 (Finite 100) (Some (Finite 50)))
     = Some \<lparr> originalAmount = Finite 100, convertedAmount = Finite 100,
              exchangeRate = Finite 1, sameCurrency = True, isCustomRate = False \<rparr>
   \<and> fdiv (Math_round (fmul (fdiv (Finite 50) (Finite 100)) (Finite 10000))) (Finite 10000)
     = Finite (1 / 2)
   \<and> getConversionPreview [mk_account 1 EUR 100, mk_account 2 EGP 0] ex_rates True
       (mk_request 1 2 (Finite (1 / 2)) (Some (Finite (2 ^ 1023))))
     = Some \<lparr> originalAmount = Finite (1 / 2), convertedAmount = Finite (2 ^ 1023),
              exchangeRate = PosInf, sameCurrency = False, isCustomRate = True \<rparr>"
proof -
  have same: "getConversionPreview [mk_account 1 EUR 100, mk_account 2 EUR 0] ex_rates True
       (mk_request 1 2 (Finite 100) (Some (Finite 50)))
     = Some \<lparr> originalAmount = Finite 100, convertedAmount = Finite 100,
              exchangeRate = Finite 1, sameCurrency = True, isCustomRate = False \<rparr>"
    by (simp add: getConversionPreview_def find_account_def mk_account_def mk_request_def)
  have h1: "fdiv (Finite (50)) (Finite (100)) = Finite (1 / 2)"
    by (simp, rule dbl_eqI [where e = "- 1" and m = 4503599627370496], simp_all add: pow2_def)
  have h2: "fmul (Finite (1 / 2)) (Finite (10000)) = Finite (5000)"
    by (simp, rule dbl_eqI [where e = 12 and m = 5497558138880000], simp_all add: pow2_def)
  have h3: "Math_round (Finite (5000)) = Finite 5000"
    by (simp add: floor_unique)
  have h4: "fdiv (Finite (5000)) (Finite (10000)) = Finite (1 / 2)"
    by (simp, rule dbl_eqI [where e = "- 1" and m = 4503599627370496], simp_all add: pow2_def)
  have half: "fdiv (Math_round (fmul (fdiv (Finite 50) (Finite 100)) (Finite 10000)))
      (Finite 10000) = Finite (1 / 2)"
    unfolding h1 h2 h3 h4 ..
  define A :: rat where "A = 2 ^ 1023"
  have pos: "0 < A" by (simp add: A_def)
  have o1: "fdiv (Finite A) (Finite (1 / 2)) = PosInf"
    unfolding A_def
    by (simp, rule dbl_overflowI [where e = 1024 and m = "2 ^ 52"], simp_all add: pow2_def)
  have o2: "fmul PosInf (Finite 10000) = PosInf" "fdiv PosInf (Finite 10000) = PosInf"
    by (simp_all add: inf_of_def)
  have over: "getConversionPreview [mk_account 1 EUR 100, mk_account 2 EGP 0] ex_rates True
       (mk_request 1 2 (Finite (1 / 2)) (Some (Finite (2 ^ 1023))))
     = Some \<lparr> originalAmount = Finite (1 / 2), convertedAmount = Finite (2 ^ 1023),
              exchangeRate = PosInf, sameCurrency = False, isCustomRate = True \<rparr>"
    unfolding A_def [symmetric]
    using pos
    by (simp add: getConversionPreview_def find_account_def mk_account_def mk_request_def
        truthy_def truthy_and_positive_def dgt_def o1 o2 del: fmul.simps fdiv.simps)
  from same half over show ?thesis by (intro conjI)
qed

text \<open>
  C5, amended. For a transfer (both accounts in the list, the amount not rejected by the test
  \<open>amount <= 0\<close>) with the custom-rate switch on and a converted amount above 0: for
  two accounts of different currencies the converted amount is returned as supplied and
  the exchange rate is \<open>Math.round(q * 10000) / 10000\<close> of the binary64 quotient \<open>q\<close>
  of the converted amount and the amount, which, whenever \<open>q * 10000\<close> is finite, is
  the binary64 value of \<open>k / 10000\<close> for the integer \<open>k\<close> nearest to \<open>q * 10000\<close>;
  the exchange-rate table does not occur in the result. For two accounts of the same
  currency the rate is 1 and the converted amount is the amount.
\<close>

lemma positive_truthy: "dgt c (Finite 0) \<Longrightarrow> truthy c"
  by (cases c) (auto simp: dgt_def truthy_def)

theorem custom_rate_preview:
  assumes "find_account accounts (from_account_id td) = Some fa"
    and "find_account accounts (to_account_id td) = Some ta"
    and "\<not> dle (amount td) (Finite 0)"
    and "custom"
    and "converted_amount td = Some c"
    and "dgt c (Finite 0)"
  shows "(acc_currency fa \<noteq> acc_currency ta \<longrightarrow>
            getConversionPreview accounts rates custom td =
              Some \<lparr> originalAmount = amount td, convertedAmount = c,
                     exchangeRate =
                       fdiv (Math_round (fmul (fdiv c (amount td)) (Finite 10000)))
                         (Finite 10000),
                     sameCurrency = False, isCustomRate = True \<rparr> \<and>
            (\<forall>s. fmul (fdiv c (amount td)) (Finite 10000) = Finite s \<longrightarrow>
                 \<bar>of_int \<lfloor>s + 1 / 2\<rfloor> - s\<bar> \<le> 1 / 2 \<and>
                 fdiv (Math_round (fmul (fdiv c (amount td)) (Finite 10000))) (Finite 10000)
                   = dbl (of_int \<lfloor>s + 1 / 2\<rfloor> / 10000)))
       \<and> (acc_currency fa = acc_currency ta \<longrightarrow>
            getConversionPreview accounts rates custom td =
              Some \<lparr> originalAmount = amount td, convertedAmount = amount td,
                     exchangeRate = Finite 1, sameCurrency = True, isCustomRate = False \<rparr>)"
proof -
  have usable: "truthy_and_positive (converted_amount td)"
    using assms(5,6) positive_truthy by (simp add: truthy_and_positive_def)
  have cross: "acc_currency fa \<noteq> acc_currency ta \<longrightarrow>
      getConversionPreview accounts rates custom td =
        Some \<lparr> originalAmount = amount td, convertedAmount = c,
               exchangeRate =
                 fdiv (Math_round (fmul (fdiv c (amount td)) (Finite 10000))) (Finite 10000),
               sameCurrency = False, isCustomRate = True \<rparr>"
    using assms usable by (simp add: getConversionPreview_def Let_def)
  have near: "\<bar>rat_of_int \<lfloor>s + 1 / 2\<rfloor> - s\<bar> \<le> 1 / 2" for s :: rat
    by linarith
  have decimals: "\<forall>s. fmul (fdiv c (amount td)) (Finite 10000) = Finite s \<longrightarrow>
      \<bar>of_int \<lfloor>s + 1 / 2\<rfloor> - s\<bar> \<le> 1 / 2 \<and>
      fdiv (Math_round (fmul (fdiv c (amount td)) (Finite 10000))) (Finite 10000)
        = dbl (of_int \<lfloor>s + 1 / 2\<rfloor> / 10000)"
    using near by simp
  have same: "acc_currency fa = acc_currency ta \<longrightarrow>
      getConversionPreview accounts rates custom td =
        Some \<lparr> originalAmount = amount td, convertedAmount = amount td,
               exchangeRate = Finite 1, sameCurrency = True, isCustomRate = False \<rparr>"
    using assms by (simp add: getConversionPreview_def)
  from cross decimals same show ?thesis by blast
qed

text \<open>
  An instance: 8 EUR with a converted amount of 0.57 EGP supplied. The binary64
  quotient is 0.07125, times 10000 is 712.4999999999999, and the rate shown is 0.0712.
\<close>

theorem custom_rate_preview_witness:
  "getConversionPreview [mk_account 1 EUR 100, mk_account 2 EGP 0] ex_rates True
       (mk_request 1 2 (Finite 8) (Some (dbl (57 / 100))))
     = Some \<lparr> originalAmount = Finite 8, convertedAmount = dbl (57 / 100),
              exchangeRate = dbl (712 / 10000), sameCurrency = False, isCustomRate = True \<rparr>"
proof -
  let ?accounts = "[mk_account 1 EUR 100, mk_account 2 EGP 0]"
  let ?td = "mk_request 1 2 (Finite 8) (Some (dbl (57 / 100)))"
  have c: "dbl (57 / 100) = Finite (5134103575202365 / 9007199254740992)"
    by (rule dbl_eqI [where e = "- 1" and m = 5134103575202365]) (simp_all add: pow2_def)
  have s1: "fdiv (Finite (5134103575202365 / 9007199254740992)) (Finite (8)) = Finite (5134103575202365 / 72057594037927936)"
    by (simp, rule dbl_eqI [where e = "- 4" and m = 5134103575202365], simp_all add: pow2_def)
  have s2: "fmul (Finite (5134103575202365 / 72057594037927936)) (Finite (10000)) = Finite (6267216278323199 / 8796093022208)"
    by (simp, rule dbl_eqI [where e = 9 and m = 6267216278323199], simp_all add: pow2_def)
  have m1: "Math_round (Finite (6267216278323199 / 8796093022208)) = Finite 712"
    by (simp add: floor_unique)
  have f1: "find_account ?accounts (from_account_id ?td) = Some (mk_account 1 EUR 100)"
    by (simp add: find_account_def mk_account_def mk_request_def)
  have f2: "find_account ?accounts (to_account_id ?td) = Some (mk_account 2 EGP 0)"
    by (simp add: find_account_def mk_account_def mk_request_def)
  have f3: "acc_currency (mk_account 1 EUR 100) \<noteq> acc_currency (mk_account 2 EGP 0)"
    by (simp add: mk_account_def)
  have f4: "\<not> dle (amount ?td) (Finite 0)"
    by (simp add: mk_request_def)
  have f5: "converted_amount ?td = Some (dbl (57 / 100))"
    by (simp add: mk_request_def)
  have f6: "dgt (dbl (57 / 100)) (Finite 0)"
    unfolding c by (simp add: dgt_def)
  have amt: "amount (mk_request 1 2 (Finite 8) v) = Finite 8" for v
    by (simp add: mk_request_def)
  have rate: "fdiv (Math_round (fmul (fdiv (dbl (57 / 100)) (Finite 8)) (Finite 10000)))
      (Finite 10000) = dbl (712 / 10000)"
    unfolding c s1 s2 m1 by simp
  from custom_rate_preview [OF f1 f2 f4 _ f5 f6, of True ex_rates] f3
  have "getConversionPreview ?accounts ex_rates True ?td =
      Some \<lparr> originalAmount = amount ?td, convertedAmount = dbl (57 / 100),
             exchangeRate =
               fdiv (Math_round (fmul (fdiv (dbl (57 / 100)) (amount ?td)) (Finite 10000)))
                 (Finite 10000),
             sameCurrency = False, isCustomRate = True \<rparr>"
    by blast
  then show ?thesis unfolding amt rate .
qed

section \<open>Currencies missing from the rate table\<close>

text \<open>
  C9. In a cross-currency conversion at the computed rate (both accounts in the list,
  the amount not rejected by the test \<open>amount <= 0\<close>, no usable custom amount) where the table
  lacks the currency of either account, a preview is still produced, and it is the
  preview that a table with the missing currency entered at rate 1 gives.
\<close>

theorem missing_rate_defaults_to_1:
  assumes "find_account accounts (from_account_id td) = Some fa"
    and "find_account accounts (to_account_id td) = Some ta"
    and "acc_currency fa \<noteq> acc_currency ta"
    and "\<not> dle (amount td) (Finite 0)"
    and "\<not> (custom \<and> truthy_and_positive (converted_amount td))"
    and "rates (acc_currency fa) = None \<or> rates (acc_currency ta) = None"
  shows "\<exists>p. getConversionPreview accounts rates custom td = Some p \<and>
           \<not> sameCurrency p \<and> \<not> isCustomRate p \<and>
           (rates (acc_currency fa) = None \<longrightarrow>
              getConversionPreview accounts (rates(acc_currency fa \<mapsto> Finite 1)) custom td
                = Some p) \<and>
           (rates (acc_currency ta) = None \<longrightarrow>
              getConversionPreview accounts (rates(acc_currency ta \<mapsto> Finite 1)) custom td
                = Some p)"
  using assms
  by (auto simp: getConversionPreview_def Let_def or_default_def truthy_def
      split: option.splits)

theorem missing_rate_defaults_to_1_witness:
  "\<exists>p. getConversionPreview [mk_account 1 EUR 100, mk_account 2 GBP 0] ex_rates False
           (mk_request 1 2 (Finite 90) None) = Some p \<and>
       getConversionPreview [mk_account 1 EUR 100, mk_account 2 GBP 0]
           (ex_rates(GBP \<mapsto> Finite 1)) False (mk_request 1 2 (Finite 90) None) = Some p \<and>
       convertedAmount p = Finite 100 \<and> exchangeRate p = dbl (11111 / 10000)"
proof -
  let ?accounts = "[mk_account 1 EUR 100, mk_account 2 GBP 0]"
  let ?td = "mk_request 1 2 (Finite 90) None"
  have r: "dbl (9 / 10) = Finite (8106479329266893 / 9007199254740992)"
    by (rule dbl_eqI [where e = "- 1" and m = 8106479329266893]) (simp_all add: pow2_def)
  have s1: "fdiv (Finite (90)) (Finite (8106479329266893 / 9007199254740992)) = Finite (100)"
    by (simp, rule dbl_eqI [where e = 6 and m = 7036874417766400], simp_all add: pow2_def)
  have s2: "fmul (Finite (100)) (Finite (1)) = Finite (100)"
    by (simp, rule dbl_eqI [where e = 6 and m = 7036874417766400], simp_all add: pow2_def)
  have s3: "fmul (Finite (100)) (Finite (100)) = Finite (10000)"
    by (simp, rule dbl_eqI [where e = 13 and m = 5497558138880000], simp_all add: pow2_def)
  have m1: "Math_round (Finite (10000)) = Finite 10000"
    by (simp add: floor_unique)
  have s4: "fdiv (Finite (10000)) (Finite (100)) = Finite (100)"
    by (simp, rule dbl_eqI [where e = 6 and m = 7036874417766400], simp_all add: pow2_def)
  have s5: "fdiv (Finite (100)) (Finite (90)) = Finite (2501999792983609 / 2251799813685248)"
    by (simp, rule dbl_eqI [where e = 0 and m = 5003999585967218], simp_all add: pow2_def)
  have s6: "fmul (Finite (2501999792983609 / 2251799813685248)) (Finite (10000)) = Finite (6108397932088889 / 549755813888)"
    by (simp, rule dbl_eqI [where e = 13 and m = 6108397932088889], simp_all add: pow2_def)
  have m2: "Math_round (Finite (6108397932088889 / 549755813888)) = Finite 11111"
    by (simp add: floor_unique)
  have a: "find_account ?accounts (from_account_id ?td) = Some (mk_account 1 EUR 100)"
    by (simp add: find_account_def mk_account_def mk_request_def)
  have b: "find_account ?accounts (to_account_id ?td) = Some (mk_account 2 GBP 0)"
    by (simp add: find_account_def mk_account_def mk_request_def)
  have c: "acc_currency (mk_account 1 EUR 100) \<noteq> acc_currency (mk_account 2 GBP 0)"
    by (simp add: mk_account_def)
  have d: "\<not> dle (amount ?td) (Finite 0)"
    and e: "\<not> (False \<and> truthy_and_positive (converted_amount ?td))"
    by (simp_all add: mk_request_def)
  have f: "ex_rates (acc_currency (mk_account 1 EUR 100)) = None \<or>
           ex_rates (acc_currency (mk_account 2 GBP 0)) = None"
    by (simp add: ex_rates_def mk_account_def)
  have s7: "fdiv (Finite 11111) (Finite 10000) = dbl (11111 / 10000)"
    by simp
  have g: "getConversionPreview ?accounts ex_rates False ?td
           = Some \<lparr> originalAmount = Finite 90, convertedAmount = Finite 100,
                    exchangeRate = dbl (11111 / 10000),
                    sameCurrency = False, isCustomRate = False \<rparr>"
    by (simp add: getConversionPreview_def find_account_def mk_account_def mk_request_def
        ex_rates_def or_default_def truthy_def truthy_and_positive_def
        r s1 s2 s3 m1 s4 s5 s6 m2 s7 del: fmul.simps fdiv.simps Math_round.simps)
  have h: "acc_currency (mk_account 2 GBP 0) = GBP" and n: "ex_rates GBP = None"
    by (simp_all add: mk_account_def ex_rates_def)
  from missing_rate_defaults_to_1 [OF a b c d e f]
  obtain p where p1: "getConversionPreview ?accounts ex_rates False ?td = Some p"
    and p2: "ex_rates (acc_currency (mk_account 2 GBP 0)) = None \<longrightarrow>
             getConversionPreview ?accounts
               (ex_rates(acc_currency (mk_account 2 GBP 0) \<mapsto> Finite 1)) False ?td
             = Some p"
    by (elim exE conjE) (rule that, assumption+)
  from p2 have "getConversionPreview ?accounts (ex_rates(GBP \<mapsto> Finite 1)) False ?td = Some p"
    unfolding h using n by simp
  with p1 g show ?thesis by auto
qed

section \<open>Transfers between one and the same account\<close>

text \<open>
  C7. A transfer request whose source and destination account are the same fails with
  a ValidationError and leaves the store as it was: no transaction rows are created.
  This holds for every request, caller and store.
\<close>

theorem same_account_transfer_fails:
  assumes "req_from_account_id req = req_to_account_id req"
  shows "create_transfer round_to rate_to_usd caller today expense_id income_id store req
           = (Inl ValidationError, store)"
  using assms by (simp add: create_transfer_def)

theorem same_account_transfer_fails_witness:
  "create_transfer (\<lambda>n x. x) (\<lambda>c. 1) 1 (mk_date 2024 5 20) 10 11 ex_store
       (mk_transfer_request 1 1 25)
     = (Inl ValidationError, ex_store)
   \<and> stored_transactions (snd (create_transfer (\<lambda>n x. x) (\<lambda>c. 1) 1 (mk_date 2024 5 20) 10 11
        ex_store (mk_transfer_request 1 1 25)))
     = [mk_tx 1 INCOME 50 EUR 1 (mk_date 2024 5 10)]"
proof -
  have a: "req_from_account_id (mk_transfer_request 1 1 25)
           = req_to_account_id (mk_transfer_request 1 1 25)"
    by (simp add: mk_transfer_request_def)
  from same_account_transfer_fails [OF a, of "\<lambda>n x. x" "\<lambda>c. 1" 1 "mk_date 2024 5 20" 10 11 ex_store]
  show ?thesis by (simp add: ex_store_def)
qed

text \<open>
  The operation is not a stub: every failure leaves the store as it was, a success
  appends exactly the two rows of the response, and a transfer between two different
  accounts of the caller succeeds.
\<close>

lemma find_Some_holds: "find P xs = Some x \<Longrightarrow> P x"
  by (induction xs) (auto split: if_splits)

lemma create_transfer_failure_keeps_store:
  "create_transfer round_to rate_to_usd caller today expense_id income_id store req
     = (Inl e, store') \<Longrightarrow> store' = store"
  by (auto simp: create_transfer_def Let_def split: if_splits option.splits prod.splits)

lemma create_transfer_success_two_rows:
  "create_transfer round_to rate_to_usd caller today expense_id income_id store req
     = (Inr resp, store') \<Longrightarrow>
   stored_transactions store' = stored_transactions store @ [expense resp, income resp] \<and>
   tx_type (expense resp) = EXPENSE \<and> tx_type (income resp) = INCOME \<and>
   tx_account_id (expense resp) = req_from_account_id req \<and>
   tx_account_id (income resp) = req_to_account_id req"
  by (auto simp: create_transfer_def owned_account_def Let_def
      split: if_splits option.splits prod.splits dest!: find_Some_holds)

lemma create_transfer_example:
  "\<exists>resp store'. create_transfer (\<lambda>n x. x) (\<lambda>c. 1) 1 (mk_date 2024 5 20) 10 11 ex_store
       (mk_transfer_request 1 2 25) = (Inr resp, store') \<and>
     length (stored_transactions store') = 3"
  by (simp add: create_transfer_def owned_account_def effective_rate_def ex_store_def
      mk_account_def mk_transfer_request_def Let_def)

text \<open>
  The page's own guard, for the record: \<open>handleSubmit\<close> answers a same-account form
  with an alert and does not open the confirmation dialog, while \<open>confirmTransfer\<close> sends
  whatever the form holds. The guard is a convenience of the page; what the claim says
  is decided by the operation above.
\<close>

lemma handleSubmit_same_account:
  "from_account_id (transferData s) = to_account_id (transferData s) \<Longrightarrow>
   handleSubmit s =
     s\<lparr>alerts := alerts s @ [''Please select different source and destination accounts'']\<rparr>"
  by (simp add: handleSubmit_def)

lemma handleSubmit_distinct_accounts:
  "from_account_id (transferData s) \<noteq> to_account_id (transferData s) \<Longrightarrow>
   handleSubmit s = s\<lparr>showPreview := True\<rparr>"
  by (simp add: handleSubmit_def)

lemma confirmTransfer_sends_form:
  "mutations (confirmTransfer s) = mutations s @ [transferData s]"
  by (simp add: confirmTransfer_def)

section \<open>Total balance\<close>

text \<open>
  C3. For the accounts EUR 100, EUR 50 and USD 30 the total balance is 150 EUR: the sum
  of the EUR accounts, with the USD account left out and nothing converted.
\<close>

theorem total_balance_example:
  "calculateTotalBalance [mk_account 1 EUR 100, mk_account 2 EUR 50, mk_account 3 USD 30]
     = \<lparr> total_amount = 150, total_currency = EUR \<rparr>"
  by (simp add: calculateTotalBalance_def mk_account_def currencyTotals_def dominantCurrency_def
      js_or_def)


section \<open>Account balances\<close>




section \<open>Monthly totals in the dominant currency\<close>

text \<open>
  The per-currency totals that \<open>calculateTotalBalance\<close> accumulates are the aggregate
  balances of the currencies that occur among the accounts, one entry per currency. The
  search for the largest starts from USD with amount 0 and replaces it only by a larger
  total. Hence, where some currency has a positive aggregate balance, the reported
  currency has the largest aggregate balance and the reported amount is that balance;
  the monthly income is the sum over the month's income transactions in that currency.
\<close>

lemma map_of_obj_set: "map_of (obj_set al k v) = (map_of al)(k \<mapsto> v)"
  by (induction al k v rule: obj_set.induct) auto

lemma keys_obj_set: "fst ` set (obj_set al k v) = insert k (fst ` set al)"
  by (induction al k v rule: obj_set.induct) auto

lemma distinct_obj_set:
  "distinct (map fst al) \<Longrightarrow> distinct (map fst (obj_set al k v))"
  by (induction al k v rule: obj_set.induct) (auto simp: keys_obj_set)

lemma currencyTotals_snoc:
  "currencyTotals (xs @ [a]) =
     obj_set (currencyTotals xs) (acc_currency a)
       (js_or (map_of (currencyTotals xs) (acc_currency a)) 0 + initial_balance a)"
  by (simp add: currencyTotals_def)

lemma aggregate_balance_snoc:
  "aggregate_balance (xs @ [a]) c =
     aggregate_balance xs c + (if acc_currency a = c then initial_balance a else 0)"
  by (simp add: aggregate_balance_def)

lemma aggregate_balance_absent:
  "c \<notin> acc_currency ` set xs \<Longrightarrow> aggregate_balance xs c = 0"
proof -
  assume "c \<notin> acc_currency ` set xs"
  then have "filter (\<lambda>a. acc_currency a = c) xs = []"
    by (auto simp: filter_empty_conv)
  then show ?thesis by (simp add: aggregate_balance_def)
qed

lemma map_of_currencyTotals:
  "map_of (currencyTotals xs) c =
     (if c \<in> acc_currency ` set xs then Some (aggregate_balance xs c) else None)"
proof (induction xs rule: rev_induct)
  case Nil
  then show ?case by (simp add: currencyTotals_def)
next
  case (snoc a xs)
  show ?case
  proof (cases "acc_currency a = c")
    case True
    then show ?thesis
      using snoc aggregate_balance_absent [of c xs]
      by (simp add: currencyTotals_snoc map_of_obj_set aggregate_balance_snoc js_or_def)
  next
    case False
    then show ?thesis
      using snoc
      by (simp add: currencyTotals_snoc map_of_obj_set aggregate_balance_snoc)
  qed
qed

lemma distinct_currencyTotals: "distinct (map fst (currencyTotals xs))"
  by (induction xs rule: rev_induct)
     (simp_all add: currencyTotals_def distinct_obj_set)

lemma currencyTotals_entry:
  assumes "(c, v) \<in> set (currencyTotals xs)"
  shows "v = aggregate_balance xs c"
proof -
  from assms have "map_of (currencyTotals xs) c = Some v"
    using distinct_currencyTotals by simp
  then show ?thesis
    by (simp add: map_of_currencyTotals split: if_splits)
qed

lemma currencyTotals_present:
  assumes "c \<in> acc_currency ` set xs"
  shows "(c, aggregate_balance xs c) \<in> set (currencyTotals xs)"
proof -
  from assms have "map_of (currencyTotals xs) c = Some (aggregate_balance xs c)"
    by (simp add: map_of_currencyTotals)
  then show ?thesis by (rule map_of_SomeD)
qed

lemma max_fold:
  fixes m :: TotalBalance
  defines "step \<equiv> (\<lambda>max (currency, amount).
              if amount > total_amount max
              then \<lparr> total_amount = amount, total_currency = currency \<rparr> else max)"
  shows "total_amount m \<le> total_amount (foldl step m es)
       \<and> (\<forall>(c, v) \<in> set es. v \<le> total_amount (foldl step m es))
       \<and> (foldl step m es = m
          \<or> (total_currency (foldl step m es), total_amount (foldl step m es)) \<in> set es)"
proof (induction es arbitrary: m)
  case Nil
  then show ?case by simp
next
  case (Cons e es)
  obtain c v where e: "e = (c, v)" by (cases e)
  let ?m' = "step m e"
  have m': "total_amount m \<le> total_amount ?m'" "v \<le> total_amount ?m'"
    "?m' = m \<or> (total_currency ?m', total_amount ?m') = (c, v)"
    by (auto simp: step_def e)
  from Cons.IH [of ?m'] m' show ?case
    by (auto simp: e)
qed

lemma dominantCurrency_props:
  "0 \<le> total_amount (dominantCurrency es)
   \<and> (\<forall>(c, v) \<in> set es. v \<le> total_amount (dominantCurrency es))
   \<and> (dominantCurrency es = \<lparr> total_amount = 0, total_currency = USD \<rparr>
      \<or> (total_currency (dominantCurrency es), total_amount (dominantCurrency es)) \<in> set es)"
  using max_fold [of "\<lparr> total_amount = 0, total_currency = USD \<rparr>" es]
  by (simp add: dominantCurrency_def)

lemma dominant_currency_largest:
  assumes "0 < aggregate_balance accounts c0"
  shows "total_amount (calculateTotalBalance accounts)
           = aggregate_balance accounts (total_currency (calculateTotalBalance accounts))
       \<and> (\<forall>c. aggregate_balance accounts c \<le> total_amount (calculateTotalBalance accounts))"
proof (cases accounts)
  case Nil
  with assms show ?thesis by (simp add: aggregate_balance_def)
next
  case (Cons first rest)
  have c0_in: "c0 \<in> acc_currency ` set accounts"
    using assms aggregate_balance_absent [of c0 accounts] by force
  show ?thesis
  proof (cases "list_all (\<lambda>account. acc_currency account = acc_currency first) accounts")
    case True
    then have all: "filter (\<lambda>a. acc_currency a = acc_currency first) accounts = accounts"
      by (simp add: list_all_iff)
    have res: "calculateTotalBalance accounts =
        \<lparr> total_amount = sum_list (map initial_balance accounts),
          total_currency = acc_currency first \<rparr>"
      using True Cons
      by (simp add: calculateTotalBalance_def foldl_plus_sum_list del: foldl_Cons)
    have agg: "aggregate_balance accounts (acc_currency first)
        = sum_list (map initial_balance accounts)"
      by (simp add: aggregate_balance_def all)
    have "c0 = acc_currency first"
      using c0_in True by (auto simp: list_all_iff)
    with assms agg have pos: "0 < sum_list (map initial_balance accounts)" by simp
    have "aggregate_balance accounts c \<le> sum_list (map initial_balance accounts)" for c
    proof (cases "c = acc_currency first")
      case True
      with agg show ?thesis by simp
    next
      case False
      with \<open>list_all _ accounts\<close> have "c \<notin> acc_currency ` set accounts"
        by (auto simp: list_all_iff)
      with pos show ?thesis by (simp add: aggregate_balance_absent)
    qed
    with res agg show ?thesis by simp
  next
    case False
    let ?es = "currencyTotals accounts"
    let ?r = "dominantCurrency ?es"
    have res: "calculateTotalBalance accounts = ?r"
      using False Cons by (simp add: calculateTotalBalance_def)
    note props = dominantCurrency_props [of ?es]
    have "(c0, aggregate_balance accounts c0) \<in> set ?es"
      using c0_in by (rule currencyTotals_present)
    with props have ge: "aggregate_balance accounts c0 \<le> total_amount ?r" by auto
    with assms have pos: "0 < total_amount ?r" by simp
    then have "?r \<noteq> \<lparr> total_amount = 0, total_currency = USD \<rparr>" by auto
    with props have "(total_currency ?r, total_amount ?r) \<in> set ?es" by blast
    then have eq: "total_amount ?r = aggregate_balance accounts (total_currency ?r)"
      by (rule currencyTotals_entry)
    have "aggregate_balance accounts c \<le> total_amount ?r" for c
    proof (cases "c \<in> acc_currency ` set accounts")
      case True
      then have "(c, aggregate_balance accounts c) \<in> set ?es"
        by (rule currencyTotals_present)
      with props show ?thesis by auto
    next
      case False
      with pos show ?thesis by (simp add: aggregate_balance_absent)
    qed
    with res eq show ?thesis by simp
  qed
qed

lemma monthlyIncome_sum:
  "monthlyIncome accounts now transactions =
     sum_list (map tx_amount
       (filter (\<lambda>t. tx_currency t = total_currency (calculateTotalBalance accounts) \<and>
                    tx_type t = INCOME \<and>
                    getMonth (tx_date t) = getMonth now \<and>
                    getFullYear (tx_date t) = getFullYear now) transactions))"
  by (simp add: monthlyIncome_def monthlyTransactions_def Let_def foldl_plus_sum_list
      conj_commute conj_left_commute cong: conj_cong)


text \<open>
  C4 at accounts of EUR -5 and GBP -10 with one income of 100 EUR this month. No
  currency total exceeds the 0 that the search for the dominant currency starts from,
  so the display currency is USD, which none of the accounts has, and the monthly
  income of both pages is 0; the currency with the largest aggregate balance is EUR.
\<close>

theorem dominant_currency_nonpositive_totals:
  "calculateTotalBalance [mk_account 1 EUR (-5), mk_account 2 GBP (-10)]
     = \<lparr> total_amount = 0, total_currency = USD \<rparr>
   \<and> monthlyIncome [mk_account 1 EUR (-5), mk_account 2 GBP (-10)] (mk_date 2024 5 20)
        [mk_tx 1 INCOME 100 EUR 1 (mk_date 2024 5 10)] = 0
   \<and> totalIncome [mk_account 1 EUR (-5), mk_account 2 GBP (-10)] (mk_date 2024 5 20)
        [mk_tx 1 INCOME 100 EUR 1 (mk_date 2024 5 10)] = 0
   \<and> aggregate_balance [mk_account 1 EUR (-5), mk_account 2 GBP (-10)] EUR = -5
   \<and> aggregate_balance [mk_account 1 EUR (-5), mk_account 2 GBP (-10)] GBP = -10
   \<and> aggregate_balance [mk_account 1 EUR (-5), mk_account 2 GBP (-10)] USD = 0"
  by (simp add: calculateTotalBalance_def currencyTotals_def dominantCurrency_def js_or_def
      monthlyIncome_def totalIncome_def monthlyTransactions_def getMonth_def getFullYear_def
      aggregate_balance_def mk_account_def mk_tx_def mk_date_def)

section \<open>Login form state\<close>

text \<open>
  C10. After \<open>setUsername(v)\<close> the getter returns \<open>v\<close>, and likewise for the
  password; after \<open>clear()\<close> both getters return the empty string. Where \<open>window\<close>
  is defined, the value is stored in \<open>sessionStorage\<close> under \<open>login_form_username\<close>
  (respectively \<open>login_form_password\<close>), and \<open>clear()\<close> removes both keys.
\<close>

theorem login_form_state_roundtrip:
  "fst (getUsername (setUsername v s)) = v
   \<and> fst (getPassword (setPassword v s)) = v
   \<and> fst (getUsername (clear s)) = ''''
   \<and> fst (getPassword (clear s)) = ''''
   \<and> fst (getPassword (snd (getUsername (clear s)))) = ''''
   \<and> (window_defined (snd s) \<longrightarrow>
        sessionStorage (snd (setUsername v s)) ''login_form_username'' = Some v
      \<and> sessionStorage (snd (snd (getUsername (setUsername v s)))) ''login_form_username'' = Some v
      \<and> sessionStorage (snd (setPassword v s)) ''login_form_password'' = Some v
      \<and> sessionStorage (snd (snd (getPassword (setPassword v s)))) ''login_form_password'' = Some v
      \<and> sessionStorage (snd (clear s)) ''login_form_username'' = None
      \<and> sessionStorage (snd (clear s)) ''login_form_password'' = None)"
  by (cases s) (simp add: getUsername_def getPassword_def setUsername_def setPassword_def
      clear_def loadFromStorage_def getItem_or_empty_def Let_def)

theorem login_form_state_roundtrip_witness:
  "window_defined (snd ex_login)
   \<and> fst (getPassword ex_login) = ''secret''
   \<and> fst (getUsername (setUsername ''alice'' ex_login)) = ''alice''
   \<and> sessionStorage (snd (setUsername ''alice'' ex_login)) ''login_form_username'' = Some ''alice''
   \<and> fst (getPassword (clear ex_login)) = ''''
   \<and> sessionStorage (snd (clear ex_login)) ''login_form_password'' = None"
proof -
  have w: "window_defined (snd ex_login)"
    by (simp add: ex_login_def new_LoginFormStateManager_def loadFromStorage_def)
  have p: "fst (getPassword ex_login) = ''secret''"
    by (simp add: ex_login_def new_LoginFormStateManager_def loadFromStorage_def
        getPassword_def getItem_or_empty_def)
  from login_form_state_roundtrip [of "''alice''" ex_login] w p
  show ?thesis by blast
qed


section \<open>Recurring templates\<close>

lemma days_in_month_pos: "Suc 0 \<le> days_in_month y m"
  by (simp add: days_in_month_def)

lemma days_before_month_Suc:
  "1 \<le> m \<Longrightarrow> days_before_month y (Suc m) = days_before_month y m + days_in_month y m"
  by (simp add: days_before_month_def)

lemma days_before_month_1: "days_before_month y (Suc 0) = 0"
  by (simp add: days_before_month_def)

lemma upt_1_13: "[Suc 0..<13] = [1, 2, 3, 4, 5, 6, 7, 8, 9, 10, 11, 12]"
  by (simp add: upt_rec)

lemma days_in_year: "days_before_month y 13 = (if is_leap y then 366 else 365)"
  by (simp add: days_before_month_def upt_1_13 days_in_month_def)

lemma valid_next_day: "valid_date d \<Longrightarrow> valid_date (next_day d)"
  by (auto simp: valid_date_def next_day_def days_in_month_pos)

lemma day_number_next_day:
  assumes "valid_date d"
  shows "day_number (next_day d) = day_number d + 1"
proof -
  have "d_day d \<le> days_in_month (d_year d) (d_month d)" and "d_month d \<le> 12"
    using assms by (simp_all add: valid_date_def)
  then consider (within) "d_day d < days_in_month (d_year d) (d_month d)"
    | (month_end) "d_day d = days_in_month (d_year d) (d_month d)" "d_month d < 12"
    | (year_end) "d_day d = days_in_month (d_year d) (d_month d)" "d_month d = 12"
    by linarith
  then show ?thesis
  proof cases
    case within
    then show ?thesis by (simp add: next_day_def day_number_def)
  next
    case month_end
    moreover have "1 \<le> d_month d" using assms by (simp add: valid_date_def)
    ultimately show ?thesis
      using days_before_month_Suc [of "d_month d" "d_year d"]
      by (simp add: next_day_def day_number_def)
  next
    case year_end
    have s12: "days_before_month (d_year d) 13
        = days_before_month (d_year d) 12 + days_in_month (d_year d) 12"
      using days_before_month_Suc [of 12 "d_year d"] by simp
    have "days_before_month (d_year d) 12 + days_in_month (d_year d) 12
        = (if is_leap (d_year d) then 366 else 365)"
      unfolding s12 [symmetric] by (rule days_in_year)
    then have "int (days_before_month (d_year d) 12) + int (days_in_month (d_year d) 12)
        = (if is_leap (d_year d) then 366 else 365)"
      by (cases "is_leap (d_year d)"; simp; linarith)
    with year_end show ?thesis
      by (simp add: next_day_def day_number_def days_before_month_1)
  qed
qed

lemma add_days_valid: "valid_date d \<Longrightarrow> valid_date (add_days n d)"
  by (induction n) (simp_all add: add_days_def valid_next_day)

lemma day_number_add_days:
  "valid_date d \<Longrightarrow> day_number (add_days n d) = day_number d + int n"
proof (induction n)
  case 0
  then show ?case by (simp add: add_days_def)
next
  case (Suc n)
  have "add_days (Suc n) d = next_day (add_days n d)"
    by (simp add: add_days_def)
  with Suc show ?case
    using day_number_next_day [OF add_days_valid [OF Suc.prems, of n]] by simp
qed

lemma add_months_valid:
  "1 \<le> d_day d \<Longrightarrow> valid_date (add_months n d)"
  by (simp add: valid_date_def add_months_def Let_def days_in_month_pos)

lemma month_index_add_months:
  "month_index (add_months n d) = month_index d + n"
  by (simp add: month_index_def add_months_def Let_def)

lemma add_months_day:
  "d_day (add_months n d) =
     min (d_day d) (days_in_month (d_year (add_months n d)) (d_month (add_months n d)))"
  by (simp add: add_months_def Let_def)

lemma add_months_12:
  assumes "1 \<le> d_month d" "d_month d \<le> 12"
  shows "d_year (add_months 12 d) = d_year d + 1 \<and> d_month (add_months 12 d) = d_month d"
proof -
  obtain k where k: "d_month d = Suc k" "k < 12"
    using assms by (cases "d_month d") auto
  have "(d_year d * 12 + k + 12) div 12 = d_year d + 1"
    using k by simp
  moreover have "(d_year d * 12 + k + 12) mod 12 = k"
    using k by simp
  ultimately show ?thesis
    using k by (simp add: add_months_def Let_def)
qed


text \<open>
  C8. One firing of an active template whose due date is a calendar date succeeds and
  moves \<open>next_due_date\<close> forward by one period of the frequency, to a calendar date
  again: DAILY by one day and WEEKLY by seven (in the count of days), MONTHLY by one
  month and QUARTERLY by three (in the count of months), YEARLY to the same month of the
  next year; for the three of them the day of the month is kept where the target month
  has it and is the last day of that month otherwise. A MONTHLY template due on
  2024-01-31, as one started on that day is, is next due on 2024-02-29.
\<close>

theorem firing_advances_next_due_date:
  assumes "is_active t" and "valid_date (next_due_date t)"
  shows "\<exists>tx t'.
      process_recurring new_id today t = Inr (tx, t') \<and>
      recurring_transaction_id tx = Some (rt_id t) \<and>
      next_due_date t' = advance (frequency t) (next_due_date t) \<and>
      valid_date (next_due_date t') \<and>
      (frequency t = DAILY \<longrightarrow>
         day_number (next_due_date t') = day_number (next_due_date t) + 1) \<and>
      (frequency t = WEEKLY \<longrightarrow>
         day_number (next_due_date t') = day_number (next_due_date t) + 7) \<and>
      (frequency t = MONTHLY \<longrightarrow>
         month_index (next_due_date t') = month_index (next_due_date t) + 1) \<and>
      (frequency t = QUARTERLY \<longrightarrow>
         month_index (next_due_date t') = month_index (next_due_date t) + 3) \<and>
      (frequency t = YEARLY \<longrightarrow>
         d_year (next_due_date t') = d_year (next_due_date t) + 1 \<and>
         d_month (next_due_date t') = d_month (next_due_date t)) \<and>
      (frequency t = MONTHLY \<or> frequency t = QUARTERLY \<or> frequency t = YEARLY \<longrightarrow>
         d_day (next_due_date t') =
           min (d_day (next_due_date t))
               (days_in_month (d_year (next_due_date t')) (d_month (next_due_date t')))) \<and>
      (frequency t = MONTHLY \<and>
       next_due_date t = \<lparr> d_year = 2024, d_month = 1, d_day = 31 \<rparr> \<longrightarrow>
         next_due_date t' = \<lparr> d_year = 2024, d_month = 2, d_day = 29 \<rparr>)"
proof -
  let ?d = "next_due_date t"
  let ?due = "advance (frequency t) ?d"
  obtain tx t' where run: "process_recurring new_id today t = Inr (tx, t')"
    and tx: "recurring_transaction_id tx = Some (rt_id t)"
    and due: "next_due_date t' = ?due"
    using assms(1) by (simp add: process_recurring_def Let_def)
  have day1: "1 \<le> d_day ?d" and month: "1 \<le> d_month ?d" "d_month ?d \<le> 12"
    using assms(2) by (simp_all add: valid_date_def)
  have valid: "valid_date ?due"
    using assms(2) day1
    by (cases "frequency t") (simp_all add: advance_def add_days_valid add_months_valid)
  have daily: "frequency t = DAILY \<longrightarrow> day_number ?due = day_number ?d + 1"
    using day_number_add_days [OF assms(2), of 1] by (simp add: advance_def)
  have weekly: "frequency t = WEEKLY \<longrightarrow> day_number ?due = day_number ?d + 7"
    using day_number_add_days [OF assms(2), of 7] by (simp add: advance_def)
  have monthly: "frequency t = MONTHLY \<longrightarrow> month_index ?due = month_index ?d + 1"
    by (simp add: advance_def month_index_add_months)
  have quarterly: "frequency t = QUARTERLY \<longrightarrow> month_index ?due = month_index ?d + 3"
    by (simp add: advance_def month_index_add_months)
  have yearly: "frequency t = YEARLY \<longrightarrow>
      d_year ?due = d_year ?d + 1 \<and> d_month ?due = d_month ?d"
    using add_months_12 [OF month] by (simp add: advance_def)
  have dom: "frequency t = MONTHLY \<or> frequency t = QUARTERLY \<or> frequency t = YEARLY \<longrightarrow>
      d_day ?due = min (d_day ?d) (days_in_month (d_year ?due) (d_month ?due))"
    using add_months_day [of 1 ?d] add_months_day [of 3 ?d] add_months_day [of 12 ?d]
    by (auto simp: advance_def)
  have jan31: "frequency t = MONTHLY \<and> ?d = \<lparr> d_year = 2024, d_month = 1, d_day = 31 \<rparr> \<longrightarrow>
      ?due = \<lparr> d_year = 2024, d_month = 2, d_day = 29 \<rparr>"
    by (auto simp: advance_def add_months_def Let_def days_in_month_def is_leap_def)
  show ?thesis
    using run tx due valid [folded due] daily [folded due] weekly [folded due]
      monthly [folded due] quarterly [folded due] yearly [folded due] dom [folded due]
      jan31 [folded due]
    by blast
qed

theorem firing_advances_next_due_date_witness:
  "is_active ex_template \<and> valid_date (next_due_date ex_template) \<and>
   start_date ex_template = \<lparr> d_year = 2024, d_month = 1, d_day = 31 \<rparr> \<and>
   (\<exists>tx t'. process_recurring 100 \<lparr> d_year = 2024, d_month = 1, d_day = 31 \<rparr> ex_template
              = Inr (tx, t') \<and>
            next_due_date t' = \<lparr> d_year = 2024, d_month = 2, d_day = 29 \<rparr>)"
proof -
  have a: "is_active ex_template"
    and f: "frequency ex_template = MONTHLY"
    and s: "start_date ex_template = \<lparr> d_year = 2024, d_month = 1, d_day = 31 \<rparr>"
    and n: "next_due_date ex_template = \<lparr> d_year = 2024, d_month = 1, d_day = 31 \<rparr>"
    by (simp_all add: ex_template_def create_recurring_def)
  have v: "valid_date (next_due_date ex_template)"
    by (simp add: n valid_date_def days_in_month_def)
  from firing_advances_next_due_date [OF a v, of 100 "\<lparr> d_year = 2024, d_month = 1, d_day = 31 \<rparr>"]
  obtain tx t' where
    "process_recurring 100 \<lparr> d_year = 2024, d_month = 1, d_day = 31 \<rparr> ex_template = Inr (tx, t')"
    and "frequency ex_template = MONTHLY \<and>
         next_due_date ex_template = \<lparr> d_year = 2024, d_month = 1, d_day = 31 \<rparr> \<longrightarrow>
         next_due_date t' = \<lparr> d_year = 2024, d_month = 2, d_day = 29 \<rparr>"
    by (elim exE conjE) (rule that, assumption+)
  with a v s f n show ?thesis by blast
qed



end
